theory Spec2Isabelle
  imports Complex_Main
begin

section \<open>JavaScript values the client code inspects\<close>

text \<open>
  The client is TypeScript running in a browser tab. Promises are awaited one after the
  other, so every \<open>async\<close> function is modelled as a function from the state of the
  tab to a result and the new state. A rejected promise (a \<open>throw\<close>) is \<open>Inl\<close> of the
  error, a fulfilled one is \<open>Inr\<close> of the value. Output to the console is not modelled.
\<close>

text \<open>
  An optional string property (\<open>undefined\<close> when missing). JavaScript treats both the
  missing property and the empty string as false.
\<close>

definition truthy :: "string option \<Rightarrow> bool" where
  "truthy v = (case v of None \<Rightarrow> False | Some s \<Rightarrow> s \<noteq> [])"

text \<open>\<open>a || b\<close> on optional strings.\<close>

definition or_else :: "string option \<Rightarrow> string option \<Rightarrow> string option" where
  "or_else a b = (if truthy a then a else b)"

text \<open>\<open>a || 'literal'\<close>: the right operand is a string literal, so the result is a string.\<close>

definition or_default :: "string option \<Rightarrow> string \<Rightarrow> string" where
  "or_default a d = (case a of None \<Rightarrow> d | Some s \<Rightarrow> if s = [] then d else s)"

text \<open>\<open>s.includes(t)\<close>: \<open>t\<close> occurs in \<open>s\<close> as a contiguous substring.\<close>

fun includes_str :: "string \<Rightarrow> string \<Rightarrow> bool" where
  "includes_str [] t = (t = [])"
| "includes_str (c # s) t = (take (length t) (c # s) = t \<or> includes_str s t)"

record user =
  u_id :: string
  u_name :: string
  u_email :: string
  u_role :: string
  u_phone :: "string option"

text \<open>
  The JSON body of a response, with the properties the client reads: \<open>message\<close>,
  \<open>token\<close> and \<open>data.user\<close> (\<open>data_of\<close> is the property \<open>data\<close>), and with the
  property \<open>user\<close> of the body itself (\<open>user_top\<close>), which the client never reads.
  \<open>Null\<close> is a body on which a property access throws a \<open>TypeError\<close>; \<open>Text\<close> is a
  string body (every property of it is \<open>undefined\<close>).
\<close>

record inner =
  user_of :: "user option"

record fields =
  message :: "string option"
  token :: "string option"
  data_of :: "inner option"
  user_top :: "user option"

datatype body = Null | Text string | Obj fields

record response =
  status :: nat
  data :: body

text \<open>
  The errors a promise of this code is rejected with: an error of axios (with the
  response when one was received), the \<open>TypeError\<close> of a property access on \<open>null\<close> or
  \<open>undefined\<close>, and \<open>new Error(msg)\<close>.
\<close>

datatype err = AxiosError "response option" | TypeError | Error string

fun isAxiosError :: "err \<Rightarrow> bool" where
  "isAxiosError (AxiosError r) = True"
| "isAxiosError TypeError = False"
| "isAxiosError (Error m) = False"

text \<open>\<open>error.response\<close>; \<open>undefined\<close> on an error that is not one of axios.\<close>

fun response_of :: "err \<Rightarrow> response option" where
  "response_of (AxiosError r) = r"
| "response_of TypeError = None"
| "response_of (Error m) = None"

text \<open>\<open>error.response?.status\<close>\<close>

definition status_of :: "err \<Rightarrow> nat option" where
  "status_of e = map_option status (response_of e)"

text \<open>\<open>data?.message\<close> of a response body.\<close>

fun body_message :: "body \<Rightarrow> string option" where
  "body_message Null = None"
| "body_message (Text s) = None"
| "body_message (Obj f) = message f"

text \<open>\<open>error.response?.data?.message\<close>\<close>

definition message_of :: "err \<Rightarrow> string option" where
  "message_of e = (case response_of e of None \<Rightarrow> None | Some r \<Rightarrow> body_message (data r))"

section \<open>The retry helper\<close>

text \<open>
  \<^verbatim>\<open>
  const withRetry = async (apiCall, retries = 2, delay = 1000) => {
    try { return await apiCall(); }
    catch (error) {
      if (retries <= 0) throw error;
      if (!axios.isAxiosError(error) ||
          (error.response && error.response.status !== 500 && error.response)) throw error;
      await new Promise(resolve => setTimeout(resolve, delay));
      return withRetry(apiCall, retries - 1, delay * 1.5);
    }
  };
  \<close>
  The helper is run on any state \<open>'s\<close> and any call. What it does besides returning is
  recorded as a list of events, oldest first: each invocation of the call with its
  outcome, and each timer it waits for with the delay in milliseconds. The delay is a
  rational number: the doubles of the default run (1000, 1500, 2250) are exact.
\<close>

datatype 'a event = Attempt "err + 'a" | Sleep rat

text \<open>The condition of the second \<open>throw\<close>, as written.\<close>

definition not_transient :: "err \<Rightarrow> bool" where
  "not_transient error =
     (\<not> isAxiosError error \<or>
      (response_of error \<noteq> None \<and> status_of error \<noteq> Some 500 \<and> response_of error \<noteq> None))"

function withRetry ::
  "('s \<Rightarrow> (err + 'a) \<times> 's) \<Rightarrow> int \<Rightarrow> rat \<Rightarrow> 's \<Rightarrow> ((err + 'a) \<times> 'a event list) \<times> 's" where
  "withRetry apiCall retries delay s =
     (case apiCall s of
        (Inr v, s1) \<Rightarrow> ((Inr v, [Attempt (Inr v)]), s1)
      | (Inl error, s1) \<Rightarrow>
          if retries \<le> 0 then ((Inl error, [Attempt (Inl error)]), s1)
          else if not_transient error then ((Inl error, [Attempt (Inl error)]), s1)
          else (case withRetry apiCall (retries - 1) (delay * (3 / 2)) s1 of
                  ((r, evs), s2) \<Rightarrow> ((r, Attempt (Inl error) # Sleep delay # evs), s2)))"
  by pat_completeness auto
termination
  by (relation "measure (\<lambda>(apiCall, retries, delay, s). nat retries)") auto

text \<open>The parts of a run.\<close>

definition outcome :: "((err + 'a) \<times> 'a event list) \<times> 's \<Rightarrow> err + 'a" where
  "outcome run = fst (fst run)"

definition events :: "((err + 'a) \<times> 'a event list) \<times> 's \<Rightarrow> 'a event list" where
  "events run = snd (fst run)"

fun attempts :: "'a event list \<Rightarrow> (err + 'a) list" where
  "attempts [] = []"
| "attempts (Attempt r # evs) = r # attempts evs"
| "attempts (Sleep d # evs) = attempts evs"

fun delays :: "'a event list \<Rightarrow> rat list" where
  "delays [] = []"
| "delays (Attempt r # evs) = delays evs"
| "delays (Sleep d # evs) = d # delays evs"

text \<open>The default arguments, with which every call of the services is wrapped.\<close>

definition withRetry_default :: "('s \<Rightarrow> (err + 'a) \<times> 's) \<Rightarrow> 's \<Rightarrow> ((err + 'a) \<times> 'a event list) \<times> 's" where
  "withRetry_default apiCall s = withRetry apiCall 2 1000 s"

section \<open>The browser tab and the remote server\<close>

text \<open>
  What the code reads and changes outside its own variables: the cookie jar of
  \<open>js-cookie\<close>, \<open>window.location\<close>, the router of the framework, the toasts, and the
  network. The remote server is not part of the repository: it is a function \<open>server\<close>
  that gives, for the number of requests sent so far and the request, what the transport
  delivers. Every operation on the cookie jar is also logged, oldest first.
\<close>

datatype http_method = GET | POST | PATCH | DELETE

text \<open>The configuration of a request; \<open>retry_mark\<close> is the property \<open>_retry\<close>.\<close>

record request =
  method_of :: http_method
  url :: string
  authorization :: "string option"
  payload :: "(string \<times> string) list"
  retry_mark :: bool

datatype transport = NoResponse | Received response

record cookie =
  c_value :: string
  c_expires :: nat

datatype cookie_op = SetCookie string string nat | RemoveCookie string

text \<open>
  \<open>toast.success\<close>, \<open>toast.error\<close> and \<open>toast.info\<close> with their text;
  \<open>FailureWith p e\<close> is \<open>toast.error\<close> of the text \<open>p\<close> followed by \<open>e.message\<close>.
\<close>

datatype toast = Success string | Failure string | Info string | FailureWith string err

datatype nav = Push string | Replace string

record world =
  cookies :: "string \<rightharpoonup> cookie"
  cookie_ops :: "cookie_op list"
  pathname :: "string option"
  href :: "string list"
  routed :: "nav list"
  toasts :: "toast list"
  server :: "nat \<Rightarrow> request \<Rightarrow> transport"
  sent :: "request list"

text \<open>
  \<open>pathname\<close> is \<open>window.location.pathname\<close>, \<open>None\<close> where \<open>window\<close> is undefined;
  \<open>href\<close> lists the assignments to \<open>window.location.href\<close>, \<open>routed\<close> the calls of
  \<open>router.push\<close> and \<open>router.replace\<close>, \<open>sent\<close> the requests put on the wire.
\<close>

definition auth_token :: string where
  "auth_token = ''auth_token''"

definition API_BASE_URL :: string where
  "API_BASE_URL = ''http://localhost:3000/api''"

definition Cookies_get :: "string \<Rightarrow> world \<Rightarrow> string option" where
  "Cookies_get k w = map_option c_value (cookies w k)"

definition Cookies_set :: "string \<Rightarrow> string \<Rightarrow> nat \<Rightarrow> world \<Rightarrow> world" where
  "Cookies_set k v days w =
     w\<lparr>cookies := (cookies w)(k \<mapsto> \<lparr>c_value = v, c_expires = days\<rparr>),
       cookie_ops := cookie_ops w @ [SetCookie k v days]\<rparr>"

definition Cookies_remove :: "string \<Rightarrow> world \<Rightarrow> world" where
  "Cookies_remove k w =
     w\<lparr>cookies := (cookies w)(k := None), cookie_ops := cookie_ops w @ [RemoveCookie k]\<rparr>"

definition toast_show :: "toast \<Rightarrow> world \<Rightarrow> world" where
  "toast_show t w = w\<lparr>toasts := toasts w @ [t]\<rparr>"

definition router_go :: "nav \<Rightarrow> world \<Rightarrow> world" where
  "router_go n w = w\<lparr>routed := routed w @ [n]\<rparr>"

definition set_href :: "string \<Rightarrow> world \<Rightarrow> world" where
  "set_href target w = w\<lparr>href := href w @ [target]\<rparr>"

section \<open>The API gateway\<close>

text \<open>
  The request interceptor of the instance \<open>api\<close>:
  \<^verbatim>\<open>
  const token = Cookies.get('auth_token');
  if (token) { config.headers['Authorization'] = `Bearer ${token}`; }
  return config;
  \<close>
\<close>

definition request_interceptor :: "request \<Rightarrow> world \<Rightarrow> request" where
  "request_interceptor config w =
     (case Cookies_get auth_token w of
        None \<Rightarrow> config
      | Some t \<Rightarrow> if t \<noteq> [] then config\<lparr>authorization := Some (''Bearer '' @ t)\<rparr> else config)"

text \<open>
  The library axios: the request is put on the wire; a response with a status from 200
  to 299 fulfils the promise, any other response rejects it with an error that carries
  the response, and no response rejects it with an error that carries none.
\<close>

definition axios_send :: "request \<Rightarrow> world \<Rightarrow> (err + response) \<times> world" where
  "axios_send config w =
     (let w1 = w\<lparr>sent := sent w @ [config]\<rparr> in
      case server w (length (sent w)) config of
        NoResponse \<Rightarrow> (Inl (AxiosError None), w1)
      | Received r \<Rightarrow>
          if 200 \<le> status r \<and> status r < 300 then (Inr r, w1)
          else (Inl (AxiosError (Some r)), w1))"

text \<open>
  The response interceptor of \<open>api\<close>, on a rejected request:
  \<^verbatim>\<open>
  const originalRequest = error.config;
  if (!error.response) {
    toast.error('Network error. Please check your connection.');
    return Promise.reject(error);
  }
  if (error.response.status === 401 && !originalRequest._retry) {
    Cookies.remove('auth_token');
    if (typeof window !== 'undefined' &&
        !window.location.pathname.includes('/login') &&
        !window.location.pathname.includes('/register')) {
      window.location.href = '/login';
    }
  }
  if (error.response.status === 500) {
    const errorMessage = data?.message || 'Server error';
    if (errorMessage.includes('MongoDB') || errorMessage.includes('database')) {
      toast.error('Database connection issue. Please try again in a moment.');
    } else { toast.error('An error occurred. Please try again.'); }
  }
  return Promise.reject(error);
  \<close>
\<close>

definition on_unauthorized :: "world \<Rightarrow> world" where
  "on_unauthorized w =
     (let w1 = Cookies_remove auth_token w in
      case pathname w1 of
        None \<Rightarrow> w1
      | Some p \<Rightarrow>
          if \<not> includes_str p ''/login'' \<and> \<not> includes_str p ''/register''
          then set_href ''/login'' w1 else w1)"

definition on_server_error :: "response \<Rightarrow> world \<Rightarrow> world" where
  "on_server_error r w =
     (let errorMessage = or_default (body_message (data r)) ''Server error'' in
      if includes_str errorMessage ''MongoDB'' \<or> includes_str errorMessage ''database''
      then toast_show (Failure ''Database connection issue. Please try again in a moment.'') w
      else toast_show (Failure ''An error occurred. Please try again.'') w)"

definition response_rejected :: "request \<Rightarrow> err \<Rightarrow> world \<Rightarrow> (err + response) \<times> world" where
  "response_rejected originalRequest error w =
     (case response_of error of
        None \<Rightarrow>
          (Inl error, toast_show (Failure ''Network error. Please check your connection.'') w)
      | Some r \<Rightarrow>
          (let w1 = (if status r = 401 \<and> \<not> retry_mark originalRequest
                     then on_unauthorized w else w);
               w2 = (if status r = 500 then on_server_error r w1 else w1)
           in (Inl error, w2)))"

text \<open>
  A request through \<open>api\<close> (\<open>api.get\<close>, \<open>api.post\<close>, \<open>api.patch\<close>, \<open>api.delete\<close>): the
  configuration has no \<open>_retry\<close>, the path is appended to the base URL, the request
  interceptor runs before the request is sent and the response interceptor after.
\<close>

definition api_config ::
  "http_method \<Rightarrow> string \<Rightarrow> (string \<times> string) list \<Rightarrow> world \<Rightarrow> request" where
  "api_config m path p w =
     request_interceptor
       \<lparr>method_of = m, url = API_BASE_URL @ path, authorization = None,
        payload = p, retry_mark = False\<rparr> w"

definition api_request ::
  "http_method \<Rightarrow> string \<Rightarrow> (string \<times> string) list \<Rightarrow> world \<Rightarrow> (err + response) \<times> world" where
  "api_request m path p w =
     (let config = api_config m path p w
      in case axios_send config w of
           (Inr r, w1) \<Rightarrow> (Inr r, w1)
         | (Inl error, w1) \<Rightarrow> response_rejected config error w1)"

text \<open>
  The body of most wrapped calls:
  \<open>const response = await api.<method>(path, payload); return response.data;\<close>
\<close>

definition api_data ::
  "http_method \<Rightarrow> string \<Rightarrow> (string \<times> string) list \<Rightarrow> world \<Rightarrow> (err + body) \<times> world" where
  "api_data m path p w =
     (case api_request m path p w of
        (Inr r, w1) \<Rightarrow> (Inr (data r), w1)
      | (Inl error, w1) \<Rightarrow> (Inl error, w1))"

text \<open>A service method is the wrapped call with the default arguments; it returns the outcome.\<close>

definition wrapped :: "(world \<Rightarrow> (err + body) \<times> world) \<Rightarrow> world \<Rightarrow> (err + body) \<times> world" where
  "wrapped apiCall w = (case withRetry_default apiCall w of ((r, evs), w1) \<Rightarrow> (r, w1))"

section \<open>The authentication service\<close>

text \<open>
  \<^verbatim>\<open>
  login: async (credentials) => {
    try {
      const response = await api.post('/auth/login', credentials);
      if (response.data.token) {
        Cookies.set('auth_token', response.data.token, { expires: 30 });
      }
      return response.data;
    } catch (error) { throw error; }
  }
  \<close>
  Both branches of the \<open>catch\<close> throw the error they caught.
\<close>

definition authService_login :: "string \<Rightarrow> string \<Rightarrow> world \<Rightarrow> (err + body) \<times> world" where
  "authService_login email password w =
     (case api_request POST ''/auth/login'' [(''email'', email), (''password'', password)] w of
        (Inr r, w1) \<Rightarrow>
          (case data r of
             Null \<Rightarrow> (Inl TypeError, w1)
           | Text s \<Rightarrow> (Inr (data r), w1)
           | Obj f \<Rightarrow>
               (case token f of
                  None \<Rightarrow> (Inr (data r), w1)
                | Some t \<Rightarrow>
                    if t \<noteq> [] then (Inr (data r), Cookies_set auth_token t 30 w1)
                    else (Inr (data r), w1)))
      | (Inl error, w1) \<Rightarrow> (Inl error, w1))"

text \<open>
  \<^verbatim>\<open>
  getCurrentUser: async () => {
    try { const response = await api.get('/auth/me'); return response.data; }
    catch (error) {
      if (axios.isAxiosError(error) && error.response?.status === 401) {
        Cookies.remove('auth_token');
      }
      throw error;
    }
  }
  \<close>
\<close>

definition authService_getCurrentUser :: "world \<Rightarrow> (err + body) \<times> world" where
  "authService_getCurrentUser w =
     (case api_request GET ''/auth/me'' [] w of
        (Inr r, w1) \<Rightarrow> (Inr (data r), w1)
      | (Inl error, w1) \<Rightarrow>
          (Inl error,
           if isAxiosError error \<and> status_of error = Some 401
           then Cookies_remove auth_token w1 else w1))"

section \<open>The session manager\<close>

text \<open>
  The state of \<open>AuthProvider\<close>: \<open>user\<close> (the session) and \<open>loading\<close> (true until the
  check at startup is over). \<open>setUser(undefined)\<close> leaves a user that is false like
  \<open>null\<close>, so both are \<open>None\<close>.
\<close>

record auth =
  session :: "user option"
  loading :: bool

definition initial_auth :: auth where
  "initial_auth = \<lparr>session = None, loading = True\<rparr>"

definition isAuthenticated :: "auth \<Rightarrow> bool" where
  "isAuthenticated a = (session a \<noteq> None)"

text \<open>
  \<^verbatim>\<open>
  const loadUser = async () => {
    try {
      const response = await authService.getCurrentUser();
      if (response.data?.user) { setUser(response.data.user); }
    } catch (error) { console.error('Failed to load user:', error); }
    finally { setLoading(false); }
  };
  \<close>
  \<open>response\<close> is the body that \<open>getCurrentUser\<close> returned: on \<open>null\<close> the access
  \<open>response.data\<close> throws inside the \<open>try\<close>. The result is the settlement of the
  promise of \<open>loadUser\<close>.
\<close>

definition loadUser :: "auth \<times> world \<Rightarrow> (err + unit) \<times> auth \<times> world" where
  "loadUser st =
     (case st of (a, w) \<Rightarrow>
        (case authService_getCurrentUser w of
           (Inr resp, w1) \<Rightarrow>
             (case resp of
                Null \<Rightarrow> (Inr (), a\<lparr>loading := False\<rparr>, w1)
              | Text s \<Rightarrow> (Inr (), a\<lparr>loading := False\<rparr>, w1)
              | Obj f \<Rightarrow>
                  (case data_of f of
                     None \<Rightarrow> (Inr (), a\<lparr>loading := False\<rparr>, w1)
                   | Some d \<Rightarrow>
                       (case user_of d of
                          None \<Rightarrow> (Inr (), a\<lparr>loading := False\<rparr>, w1)
                        | Some u \<Rightarrow> (Inr (), a\<lparr>session := Some u, loading := False\<rparr>, w1))))
         | (Inl error, w1) \<Rightarrow> (Inr (), a\<lparr>loading := False\<rparr>, w1)))"

text \<open>
  The effect that \<open>AuthProvider\<close> runs once, when it is mounted:
  \<^verbatim>\<open>
  const token = Cookies.get('auth_token');
  if (!token) { setLoading(false); return; }
  const loadUser = ...;
  loadUser();
  \<close>
\<close>

definition AuthProvider_mount :: "auth \<times> world \<Rightarrow> (err + unit) \<times> auth \<times> world" where
  "AuthProvider_mount st =
     (case st of (a, w) \<Rightarrow>
        if \<not> truthy (Cookies_get auth_token w) then (Inr (), a\<lparr>loading := False\<rparr>, w)
        else loadUser (a, w))"

text \<open>
  \<^verbatim>\<open>
  const login = async (email, password) => {
    setLoading(true);
    try {
      const response = await authService.login({ email, password });
      setUser(response.data.user);
      toast.success('Login successful!');
      router.push('/dashboard');
    } catch (error) {
      if (error?.response?.status === 503) {
        toast.error('Database connection is currently unavailable. Please try again later.');
      } else if (!error.response) {
        toast.error('Network error. Please check your connection and try again.');
      } else {
        toast.error(error.response?.data?.message || 'Login failed');
      }
      throw error;
    } finally { setLoading(false); }
  };
  \<close>
\<close>

definition login_failed :: "err \<Rightarrow> auth \<Rightarrow> world \<Rightarrow> (err + unit) \<times> auth \<times> world" where
  "login_failed error a w =
     (let w1 =
        (if status_of error = Some 503
         then toast_show (Failure ''Database connection is currently unavailable. Please try again later.'') w
         else if response_of error = None
         then toast_show (Failure ''Network error. Please check your connection and try again.'') w
         else toast_show (Failure (or_default (message_of error) ''Login failed'')) w)
      in (Inl error, a\<lparr>loading := False\<rparr>, w1))"

definition login :: "string \<Rightarrow> string \<Rightarrow> auth \<times> world \<Rightarrow> (err + unit) \<times> auth \<times> world" where
  "login email password st =
     (case st of (a0, w) \<Rightarrow>
        (let a = a0\<lparr>loading := True\<rparr> in
         case authService_login email password w of
           (Inr resp, w1) \<Rightarrow>
             (case resp of
                Null \<Rightarrow> login_failed TypeError a w1
              | Text s \<Rightarrow> login_failed TypeError a w1
              | Obj f \<Rightarrow>
                  (case data_of f of
                     None \<Rightarrow> login_failed TypeError a w1
                   | Some d \<Rightarrow>
                       (Inr (), a\<lparr>session := user_of d, loading := False\<rparr>,
                        router_go (Push ''/dashboard'')
                          (toast_show (Success ''Login successful!'') w1))))
         | (Inl error, w1) \<Rightarrow> login_failed error a w1))"

section \<open>The route guard\<close>

text \<open>
  \<^verbatim>\<open>
  export function useAuth() {
    const context = useContext(AuthContext);
    if (context === undefined) {
      throw new Error('useAuth must be used within an AuthProvider');
    }
    return context;
  }
  export function withAuth(Component) {
    return function ProtectedRoute(props) {
      const { isAuthenticated, loading } = useAuth();
      const router = useRouter();
      useEffect(() => {
        if (!loading && !isAuthenticated) { router.replace('/login'); }
      }, [isAuthenticated, loading, router]);
      if (loading) { return <div ...>Loading...</div>; }
      return isAuthenticated ? <Component {...props} /> : null;
    };
  }
  \<close>
  What a render gives: the placeholder, the wrapped component on the properties, or
  \<open>null\<close>. The effect runs after the render; the model returns the view and the tab
  after the effect.
\<close>

datatype 'c view = LoadingPlaceholder | Wrapped 'c | NullView

definition useAuth :: "auth option \<Rightarrow> err + auth" where
  "useAuth context =
     (case context of
        None \<Rightarrow> Inl (Error ''useAuth must be used within an AuthProvider'')
      | Some a \<Rightarrow> Inr a)"

definition ProtectedRoute :: "('p \<Rightarrow> 'c) \<Rightarrow> 'p \<Rightarrow> bool \<Rightarrow> bool \<Rightarrow> world \<Rightarrow> 'c view \<times> world" where
  "ProtectedRoute Component props authenticated initializing w =
     (let w1 = (if \<not> initializing \<and> \<not> authenticated then router_go (Replace ''/login'') w else w)
      in if initializing then (LoadingPlaceholder, w1)
         else (if authenticated then Wrapped (Component props) else NullView, w1))"

definition withAuth :: "('p \<Rightarrow> 'c) \<Rightarrow> 'p \<Rightarrow> auth option \<Rightarrow> world \<Rightarrow> err + 'c view \<times> world" where
  "withAuth Component props context w =
     (case useAuth context of
        Inl e \<Rightarrow> Inl e
      | Inr a \<Rightarrow> Inr (ProtectedRoute Component props (isAuthenticated a) (loading a) w))"

section \<open>The booking forms\<close>

text \<open>
  The form of the page that uses \<open>bookingsService\<close>, and its submit handler:
  \<^verbatim>\<open>
  createBooking: async (bookingData) => {
    return withRetry(async () => {
      const response = await api.post('/bookings', bookingData);
      return response.data;
    });
  }

  const handleSubmit = async (e) => {
    e.preventDefault();
    setLoading(true);
    try {
      const response = await bookingsService.createBooking(formData);
      if (response) {
        toast.success('Booking created successfully!');
        router.push('/dashboard');
      }
    } catch (error) {
      toast.error(error.response?.data?.message || 'Failed to create booking');
    } finally { setLoading(false); }
  };
  \<close>
  The state of the page that the handler changes is its flag \<open>loading\<close>.
\<close>

record formData =
  customer_name :: string
  customer_email :: string
  customer_phone :: string
  service_name :: string
  service_details :: string
  booking_date :: string
  booking_time :: string
  booking_notes :: string

definition formData_json :: "formData \<Rightarrow> (string \<times> string) list" where
  "formData_json fd =
     [(''customer_name'', customer_name fd), (''customer_email'', customer_email fd),
      (''customer_phone'', customer_phone fd), (''service_name'', service_name fd),
      (''service_details'', service_details fd), (''booking_date'', booking_date fd),
      (''booking_time'', booking_time fd), (''booking_notes'', booking_notes fd)]"

definition bookingsService_createBooking ::
  "(string \<times> string) list \<Rightarrow> world \<Rightarrow> (err + body) \<times> world" where
  "bookingsService_createBooking bookingData w = wrapped (api_data POST ''/bookings'' bookingData) w"

text \<open>Whether a body counts as true in a condition: \<open>null\<close> and the empty string do not.\<close>

fun body_truthy :: "body \<Rightarrow> bool" where
  "body_truthy Null = False"
| "body_truthy (Text s) = (s \<noteq> [])"
| "body_truthy (Obj f) = True"

definition handleSubmit :: "formData \<Rightarrow> bool \<times> world \<Rightarrow> bool \<times> world" where
  "handleSubmit fd st =
     (case st of (busy, w) \<Rightarrow>
        (case bookingsService_createBooking (formData_json fd) w of
           (Inr resp, w1) \<Rightarrow>
             if body_truthy resp
             then (False, router_go (Push ''/dashboard'')
                            (toast_show (Success ''Booking created successfully!'') w1))
             else (False, w1)
         | (Inl error, w1) \<Rightarrow>
             (False, toast_show (Failure (or_default (message_of error) ''Failed to create booking'')) w1)))"

text \<open>
  The other form, of the page that uses \<open>bookingService\<close> of the second \<open>services/api.ts\<close>
  (whose instance \<open>api\<close> has the same two interceptors, and whose calls are not wrapped):
  \<^verbatim>\<open>
  createBooking: async (bookingData) => {
    try { const response = await api.post('/bookings', bookingData); return response; }
    catch (error) { throw error; }
  }

  const handleSubmit = async (e) => {
    e.preventDefault();
    if (!formData.date || !formData.time || !formData.service) {
      toast.error('Please fill all required fields'); return;
    }
    const selectedDate = new Date(formData.date);
    const today = new Date();
    today.setHours(0, 0, 0, 0);
    if (selectedDate < today) { toast.error('Please select a future date'); return; }
    try {
      setIsLoading(true);
      const selectedService = services.find(s => s.id === formData.service);
      await bookingService.createBooking({
        customer_name: user?.name, customer_email: user?.email,
        customer_phone: user?.phone || '',
        service_name: selectedService?.name,
        service_details: `${selectedService?.name} service`,
        booking_date: formData.date, booking_time: formData.time,
        booking_notes: formData.notes, status: 'pending' });
      toast.success('Booking created successfully!');
      router.push('/dashboard');
    } catch (error) {
      toast.error('Failed to create booking. Please try again.');
    } finally { setIsLoading(false); }
  };
  \<close>
  The two dates are parameters: \<open>selectedDate\<close> is the time value of
  \<open>new Date(formData.date)\<close> (\<open>None\<close> for an invalid date, which compares false) and
  \<open>today\<close> the time value of the local midnight. A property that is \<open>undefined\<close> is
  left out of the JSON that is sent.
\<close>

record BookingFormData =
  bf_date :: string
  bf_time :: string
  bf_service :: string
  bf_notes :: string

definition services :: "(string \<times> string) list" where
  "services =
     [(''haircut'', ''Haircut''), (''coloring'', ''Hair Coloring''),
      (''styling'', ''Hair Styling''), (''facial'', ''Facial Treatment''),
      (''makeup'', ''Professional Makeup''), (''manicure'', ''Manicure''),
      (''pedicure'', ''Pedicure''), (''massage'', ''Massage Therapy'')]"

definition optional_field :: "string \<Rightarrow> string option \<Rightarrow> (string \<times> string) list" where
  "optional_field k v = (case v of None \<Rightarrow> [] | Some x \<Rightarrow> [(k, x)])"

definition booking_json :: "user option \<Rightarrow> BookingFormData \<Rightarrow> (string \<times> string) list" where
  "booking_json u fd =
     (let selectedService = map_of services (bf_service fd) in
      optional_field ''customer_name'' (map_option u_name u) @
      optional_field ''customer_email'' (map_option u_email u) @
      [(''customer_phone'', or_default (case u of None \<Rightarrow> None | Some x \<Rightarrow> u_phone x) [])] @
      optional_field ''service_name'' selectedService @
      [(''service_details'',
        (case selectedService of None \<Rightarrow> ''undefined'' | Some n \<Rightarrow> n) @ '' service''),
       (''booking_date'', bf_date fd), (''booking_time'', bf_time fd),
       (''booking_notes'', bf_notes fd), (''status'', ''pending'')])"

definition bookingService_createBooking ::
  "(string \<times> string) list \<Rightarrow> world \<Rightarrow> (err + response) \<times> world" where
  "bookingService_createBooking bookingData w = api_request POST ''/bookings'' bookingData w"

definition handleSubmit_unwrapped ::
  "int option \<Rightarrow> int \<Rightarrow> user option \<Rightarrow> BookingFormData \<Rightarrow> bool \<times> world \<Rightarrow> bool \<times> world" where
  "handleSubmit_unwrapped selectedDate today u fd st =
     (case st of (isLoading, w) \<Rightarrow>
        if bf_date fd = [] \<or> bf_time fd = [] \<or> bf_service fd = []
        then (isLoading, toast_show (Failure ''Please fill all required fields'') w)
        else if (case selectedDate of None \<Rightarrow> False | Some t \<Rightarrow> t < today)
        then (isLoading, toast_show (Failure ''Please select a future date'') w)
        else
          (case bookingService_createBooking (booking_json u fd) w of
             (Inr r, w1) \<Rightarrow>
               (False, router_go (Push ''/dashboard'')
                         (toast_show (Success ''Booking created successfully!'') w1))
           | (Inl error, w1) \<Rightarrow>
               (False, toast_show (Failure ''Failed to create booking. Please try again.'') w1)))"

section \<open>The administration of users\<close>

text \<open>
  \<^verbatim>\<open>
  deleteUser: async (userId) => {
    if (!userId) { throw new Error('User ID is required'); }
    // Use direct axios call to bypass any potential interceptor issues
    const token = Cookies.get('auth_token');
    const url = `${API_BASE_URL}/admin/users/delete/${userId}`;
    try {
      const response = await axios.delete(url, { headers: {
          'Authorization': `Bearer ${token}`, 'Content-Type': 'application/json' } });
      return response.data;
    } catch (error) { throw error; }
  }
  \<close>
\<close>

definition usersAdminService_deleteUser :: "string \<Rightarrow> world \<Rightarrow> (err + body) \<times> world" where
  "usersAdminService_deleteUser userId w =
     (if userId = [] then (Inl (Error ''User ID is required''), w)
      else
        (let tok = Cookies_get auth_token w;
             target = API_BASE_URL @ ''/admin/users/delete/'' @ userId
         in case axios_send
                   \<lparr>method_of = DELETE, url = target,
                    authorization = Some (''Bearer '' @ (case tok of None \<Rightarrow> ''undefined'' | Some t \<Rightarrow> t)),
                    payload = [], retry_mark = False\<rparr> w of
              (Inr r, w1) \<Rightarrow> (Inr (data r), w1)
            | (Inl error, w1) \<Rightarrow> (Inl error, w1)))"

text \<open>
  A user of the list: \<open>x_id\<close> is the property \<open>_id\<close>, \<open>o_id\<close> the property \<open>id\<close>.
  The page's state: the list shown, the modal, the user selected in it.
\<close>

record listed =
  x_id :: "string option"
  o_id :: "string option"
  l_name :: string
  l_email :: string
  l_phone :: "string option"
  l_role :: string
  l_createdAt :: string

record page =
  users :: "listed list"
  showDeleteModal :: bool
  userToDelete :: "listed option"
  deletingUser :: bool

text \<open>
  \<open>String.prototype.trim\<close> removes the white space and the line terminators of
  ECMAScript from both ends of a string. A string is the list of the bytes of its UTF-8
  encoding, so a character beyond ASCII is a sequence of two or three bytes:
  U+0009 to U+000D and U+0020 are one byte each, U+00A0 is \<open>C2 A0\<close>, U+1680 is
  \<open>E1 9A 80\<close>, U+2000 to U+200A are \<open>E2 80 80\<close> to \<open>E2 80 8A\<close>, U+2028, U+2029 and
  U+202F are \<open>E2 80 A8\<close>, \<open>E2 80 A9\<close> and \<open>E2 80 AF\<close>, U+205F is \<open>E2 81 9F\<close>,
  U+3000 is \<open>E3 80 80\<close> and U+FEFF is \<open>EF BB BF\<close>.
\<close>

definition white_space :: "string list" where
  "white_space =
     [[CHR 0x09], [CHR 0x0A], [CHR 0x0B], [CHR 0x0C], [CHR 0x0D], [CHR 0x20],
      [CHR 0xC2, CHR 0xA0], [CHR 0xE1, CHR 0x9A, CHR 0x80],
      [CHR 0xE2, CHR 0x80, CHR 0x80], [CHR 0xE2, CHR 0x80, CHR 0x81],
      [CHR 0xE2, CHR 0x80, CHR 0x82], [CHR 0xE2, CHR 0x80, CHR 0x83],
      [CHR 0xE2, CHR 0x80, CHR 0x84], [CHR 0xE2, CHR 0x80, CHR 0x85],
      [CHR 0xE2, CHR 0x80, CHR 0x86], [CHR 0xE2, CHR 0x80, CHR 0x87],
      [CHR 0xE2, CHR 0x80, CHR 0x88], [CHR 0xE2, CHR 0x80, CHR 0x89],
      [CHR 0xE2, CHR 0x80, CHR 0x8A], [CHR 0xE2, CHR 0x80, CHR 0xA8],
      [CHR 0xE2, CHR 0x80, CHR 0xA9], [CHR 0xE2, CHR 0x80, CHR 0xAF],
      [CHR 0xE2, CHR 0x81, CHR 0x9F], [CHR 0xE3, CHR 0x80, CHR 0x80],
      [CHR 0xEF, CHR 0xBB, CHR 0xBF]]"

text \<open>
  The number of bytes of the first of the sequences \<open>pats\<close> that \<open>s\<close> starts with, 0 when
  it starts with none; \<open>strip\<close> removes such sequences from the start of \<open>s\<close> as long
  as there is one.
\<close>

definition ws_len :: "string list \<Rightarrow> string \<Rightarrow> nat" where
  "ws_len pats s =
     (case find (\<lambda>p. p \<noteq> [] \<and> take (length p) s = p) pats of
        None \<Rightarrow> 0
      | Some p \<Rightarrow> length p)"

function strip :: "string list \<Rightarrow> string \<Rightarrow> string" where
  "strip pats s = (if ws_len pats s = 0 then s else strip pats (drop (ws_len pats s) s))"
  by pat_completeness auto
termination
proof (relation "measure (\<lambda>(pats, s). length s)")
  show "wf (measure (\<lambda>(pats, s). length s))"
    by simp
next
  fix pats :: "string list" and s :: string
  assume pos: "ws_len pats s \<noteq> 0"
  then obtain p where "find (\<lambda>p. p \<noteq> [] \<and> take (length p) s = p) pats = Some p"
    by (auto simp add: ws_len_def split: option.splits)
  then have "p \<noteq> [] \<and> take (length p) s = p"
    by (auto simp add: find_Some_iff)
  then have "s \<noteq> []"
    by auto
  with pos show "((pats, drop (ws_len pats s) s), (pats, s)) \<in> measure (\<lambda>(pats, s). length s)"
    by simp
qed

definition trim :: "string \<Rightarrow> string" where
  "trim s = rev (strip (map rev white_space) (rev (strip white_space s)))"




text \<open>
  \<^verbatim>\<open>
  const handleDeleteUser = async () => {
    if (!userToDelete) { return; }
    let userId = userToDelete._id || userToDelete.id;
    if (userId) { userId = String(userId).trim(); }
    if (!userId) { toast.error('Invalid user ID'); closeDeleteModal(); return; }
    // Prevent admins from deleting their own account
    if (userId === user?.id) {
      toast.error('You cannot delete your own admin account'); closeDeleteModal(); return;
    }
    setDeletingUser(true);
    try {
      const result = await usersAdminService.deleteUser(userId);
      setUsers(prevUsers => prevUsers.filter(u => (u._id || u.id) !== userId));
      toast.success('User access revoked successfully');
      closeDeleteModal();
    } catch (error) {
      if (error.response?.status === 404) { toast.error('User not found'); }
      else if (error.response?.status === 403) {
        toast.error('You do not have permission to delete this user'); }
      else if (error.response?.status === 400) { toast.error('Cannot delete admin account'); }
      else { toast.error(`Failed to revoke user access: ${error.message}`); }
    } finally { setDeletingUser(false); }
  };
  \<close>
  \<open>user\<close> is the session of the logged-in administrator.
\<close>

text \<open>
  The identifier of the selected user, as the handler computes it:
  \<open>let userId = userToDelete._id || userToDelete.id;
  if (userId) { userId = String(userId).trim(); }\<close>
\<close>

definition clean_id :: "listed \<Rightarrow> string option" where
  "clean_id selected =
     (let userId0 = or_else (x_id selected) (o_id selected)
      in if truthy userId0 then map_option trim userId0 else userId0)"



section \<open>Notions used to state the properties\<close>

text \<open>
  A failure is transient when it is an error of axios with no response (nothing was
  received: a network failure or the timeout), or with a response of status 500.
\<close>

definition transient :: "err \<Rightarrow> bool" where
  "transient e = (isAxiosError e \<and> (response_of e = None \<or> status_of e = Some 500))"

text \<open>
  A list of events that starts with an attempt, has exactly one timer between two
  attempts that follow each other, and ends with an attempt.
\<close>

fun alternating :: "'a event list \<Rightarrow> bool" where
  "alternating [Attempt r] = True"
| "alternating (Attempt r # Sleep d # evs) = alternating evs"
| "alternating evs = False"

text \<open>
  Invoking a call again and again, each time on the state that the invocation before
  left: \<open>calls apiCall n s\<close> is what the invocation number \<open>n\<close> (from 0) returns and
  the state it leaves, after \<open>n + 1\<close> invocations in all.
\<close>

fun calls :: "('s \<Rightarrow> (err + 'a) \<times> 's) \<Rightarrow> nat \<Rightarrow> 's \<Rightarrow> (err + 'a) \<times> 's" where
  "calls apiCall 0 s = apiCall s"
| "calls apiCall (Suc n) s = calls apiCall n (snd (apiCall s))"

text \<open>The invocation failed with a transient error.\<close>

definition failed_transient :: "(err + 'a) \<times> 's \<Rightarrow> bool" where
  "failed_transient res = (case fst res of Inl e \<Rightarrow> transient e | Inr v \<Rightarrow> False)"

section \<open>Example tabs and servers\<close>

text \<open>
  A tab of a logged-in user on the dashboard, talking to the server \<open>srv\<close>, and a tab
  with no cookie on the login page.
\<close>

definition tab :: "(nat \<Rightarrow> request \<Rightarrow> transport) \<Rightarrow> world" where
  "tab srv =
     \<lparr>cookies = [auth_token \<mapsto> \<lparr>c_value = ''t0'', c_expires = 30\<rparr>], cookie_ops = [],
      pathname = Some ''/dashboard'', href = [], routed = [], toasts = [],
      server = srv, sent = []\<rparr>"

definition fresh_tab :: "(nat \<Rightarrow> request \<Rightarrow> transport) \<Rightarrow> world" where
  "fresh_tab srv =
     \<lparr>cookies = Map.empty, cookie_ops = [], pathname = Some ''/login'', href = [],
      routed = [], toasts = [], server = srv, sent = []\<rparr>"

definition reply :: "nat \<Rightarrow> string option \<Rightarrow> response" where
  "reply code msg = \<lparr>status = code, data = Obj \<lparr>message = msg, token = None, data_of = None, user_top = None\<rparr>\<rparr>"

definition always :: "transport \<Rightarrow> nat \<Rightarrow> request \<Rightarrow> transport" where
  "always t n r = t"

definition down_then :: "nat \<Rightarrow> transport \<Rightarrow> nat \<Rightarrow> request \<Rightarrow> transport" where
  "down_then k t n r = (if n < k then NoResponse else t)"

definition alice :: user where
  "alice = \<lparr>u_id = ''a1'', u_name = ''Alice'', u_email = ''a@b.com'', u_role = ''admin'',
            u_phone = None\<rparr>"

definition login_ok :: response where
  "login_ok = \<lparr>status = 200,
              data = Obj \<lparr>message = None, token = Some ''t1'',
                        data_of = Some \<lparr>user_of = Some alice\<rparr>, user_top = None\<rparr>\<rparr>"

text \<open>
  Between two states of the tab no cookie was set: the jar and the log of its operations
  are as before, or the token was removed once.
\<close>

definition no_token_written :: "world \<Rightarrow> world \<Rightarrow> bool" where
  "no_token_written w w' =
     ((cookies w' = cookies w \<and> cookie_ops w' = cookie_ops w) \<or>
      (cookies w' = (cookies w)(auth_token := None) \<and>
       cookie_ops w' = cookie_ops w @ [RemoveCookie auth_token]))"

text \<open>A filled form of the page that uses \<open>bookingService\<close>, and one of the other page.\<close>

definition haircut :: BookingFormData where
  "haircut = \<lparr>bf_date = ''2099-01-01'', bf_time = ''09:00'', bf_service = ''haircut'',
              bf_notes = []\<rparr>"

definition consultation :: formData where
  "consultation =
     \<lparr>customer_name = ''Alice'', customer_email = ''a@b.com'', customer_phone = [],
      service_name = ''Consultation'', service_details = [], booking_date = ''2099-01-01'',
      booking_time = ''09:00'', booking_notes = []\<rparr>"


definition padded_row :: listed where
  "padded_row = \<lparr>x_id = Some '' a1'', o_id = None, l_name = ''Alice'', l_email = ''a@b.com'',
                 l_phone = None, l_role = ''admin'', l_createdAt = ''2025-01-01''\<rparr>"


text \<open>
  A successful answer to the login in the shape \<open>{token, user}\<close>: the user record is a
  property of the body itself, and the body has no property \<open>data\<close>.
\<close>

definition flat_ok :: response where
  "flat_ok = \<lparr>status = 200,
              data = Obj \<lparr>message = None, token = Some ''t1'', data_of = None,
                        user_top = Some alice\<rparr>\<rparr>"



section \<open>Properties of the retry helper\<close>

declare withRetry.simps [simp del]

lemma withRetry_Inr:
  "apiCall s = (Inr v, s1) \<Longrightarrow>
   withRetry apiCall retries delay s = ((Inr v, [Attempt (Inr v)]), s1)"
  by (simp add: withRetry.simps)

lemma withRetry_stop:
  "apiCall s = (Inl e, s1) \<Longrightarrow> retries \<le> 0 \<or> not_transient e \<Longrightarrow>
   withRetry apiCall retries delay s = ((Inl e, [Attempt (Inl e)]), s1)"
  by (auto simp add: withRetry.simps)

lemma withRetry_again:
  "apiCall s = (Inl e, s1) \<Longrightarrow> 0 < retries \<Longrightarrow> \<not> not_transient e \<Longrightarrow>
   withRetry apiCall (retries - 1) (delay * (3 / 2)) s1 = ((r, evs), s2) \<Longrightarrow>
   withRetry apiCall retries delay s = ((r, Attempt (Inl e) # Sleep delay # evs), s2)"
  by (simp add: withRetry.simps)

text \<open>
  Induction over a run of the helper: the call succeeded, or it failed and the error was
  thrown on, or it failed and the helper waited and started again.
\<close>

lemma withRetry_run_induct [consumes 1, case_names ok stop again]:
  assumes run: "withRetry apiCall retries delay s = run"
    and ok: "\<And>apiCall retries delay s v s1.
      apiCall s = (Inr v, s1) \<Longrightarrow> P apiCall retries delay s ((Inr v, [Attempt (Inr v)]), s1)"
    and stop: "\<And>apiCall retries delay s e s1.
      apiCall s = (Inl e, s1) \<Longrightarrow> retries \<le> 0 \<or> not_transient e \<Longrightarrow>
      P apiCall retries delay s ((Inl e, [Attempt (Inl e)]), s1)"
    and again: "\<And>apiCall retries delay s e s1 r evs s2.
      apiCall s = (Inl e, s1) \<Longrightarrow> 0 < retries \<Longrightarrow> \<not> not_transient e \<Longrightarrow>
      withRetry apiCall (retries - 1) (delay * (3 / 2)) s1 = ((r, evs), s2) \<Longrightarrow>
      P apiCall (retries - 1) (delay * (3 / 2)) s1 ((r, evs), s2) \<Longrightarrow>
      P apiCall retries delay s ((r, Attempt (Inl e) # Sleep delay # evs), s2)"
  shows "P apiCall retries delay s run"
  using run
proof (induction apiCall retries delay s arbitrary: run rule: withRetry.induct)
  case (1 apiCall retries delay s)
  obtain res s1 where call: "apiCall s = (res, s1)" by (cases "apiCall s")
  show ?case
  proof (cases res)
    case (Inr v)
    with call have call': "apiCall s = (Inr v, s1)" by simp
    have "P apiCall retries delay s ((Inr v, [Attempt (Inr v)]), s1)"
      by (rule ok) (fact call')
    with withRetry_Inr[of apiCall s v s1 retries delay] call' "1.prems"
    show ?thesis by simp
  next
    case (Inl e)
    with call have call': "apiCall s = (Inl e, s1)" by simp
    show ?thesis
    proof (cases "retries \<le> 0 \<or> not_transient e")
      case True
      have "P apiCall retries delay s ((Inl e, [Attempt (Inl e)]), s1)"
        by (rule stop) (fact call', fact True)
      with withRetry_stop[of apiCall s e s1 retries delay] call' True "1.prems"
      show ?thesis by simp
    next
      case False
      obtain r evs s2
        where rec: "withRetry apiCall (retries - 1) (delay * (3 / 2)) s1 = ((r, evs), s2)"
        by (metis prod.exhaust)
      from False have pos: "0 < retries" and tr: "\<not> not_transient e" by auto
      from False have "\<not> retries \<le> 0" and "\<not> not_transient e" by auto
      from "1.IH"[OF call[symmetric] Inl this rec]
      have "P apiCall (retries - 1) (delay * (3 / 2)) s1 ((r, evs), s2)" .
      then have "P apiCall retries delay s ((r, Attempt (Inl e) # Sleep delay # evs), s2)"
        using call' pos tr rec by (intro again)
      with withRetry_again[of apiCall s e s1 retries delay r evs s2] call' pos tr rec "1.prems"
      show ?thesis by simp
    qed
  qed
qed

lemma not_transient_iff: "not_transient e = (\<not> transient e)"
  by (cases e) (auto simp add: not_transient_def transient_def status_of_def)

lemma run_alternating:
  "withRetry apiCall retries delay s = run \<Longrightarrow> alternating (events run)"
  by (induction rule: withRetry_run_induct) (simp_all add: events_def)

lemma run_attempts_nonempty:
  "withRetry apiCall retries delay s = run \<Longrightarrow> attempts (events run) \<noteq> []"
  by (induction rule: withRetry_run_induct) (simp_all add: events_def)

lemma run_attempts_bound:
  "withRetry apiCall retries delay s = run \<Longrightarrow>
   length (attempts (events run)) \<le> nat retries + 1"
  by (induction rule: withRetry_run_induct) (auto simp add: events_def)

lemma run_outcome_last:
  "withRetry apiCall retries delay s = run \<Longrightarrow> outcome run = last (attempts (events run))"
proof (induction rule: withRetry_run_induct)
  case (again apiCall retries delay s e s1 r evs s2)
  from run_attempts_nonempty[OF again(4)] again(5) show ?case
    by (simp add: events_def outcome_def)
qed (simp_all add: events_def outcome_def)

lemma run_butlast_transient:
  "withRetry apiCall retries delay s = run \<Longrightarrow>
   \<forall>x \<in> set (butlast (attempts (events run))). \<exists>e. x = Inl e \<and> transient e"
proof (induction rule: withRetry_run_induct)
  case (again apiCall retries delay s e s1 r evs s2)
  from run_attempts_nonempty[OF again(4)] again(3,5) show ?case
    by (simp add: events_def not_transient_iff)
qed (simp_all add: events_def)

lemma run_delays:
  "withRetry apiCall retries delay s = run \<Longrightarrow>
   delays (events run) =
   map (\<lambda>k. delay * (3 / 2) ^ k) [0 ..< length (attempts (events run)) - 1]"
proof (induction rule: withRetry_run_induct)
  case (again apiCall retries delay s e s1 r evs s2)
  from run_attempts_nonempty[OF again(4)] obtain n where n: "length (attempts evs) = Suc n"
    by (cases "attempts evs") (simp_all add: events_def)
  with again(5) show ?case
    by (simp add: events_def map_upt_Suc mult.assoc del: upt_Suc)
qed (simp_all add: events_def)

text \<open>
  A run of the helper is a run of the call itself: the call is invoked \<open>n + 1\<close> times
  in a row, each time on the state the invocation before left, the invocations before
  the last one failed with a transient error, and the last one either did not, or used
  up the budget.
\<close>

lemma run_calls:
  "withRetry apiCall retries delay s = run \<Longrightarrow>
   \<exists>n. int n \<le> max retries 0 \<and>
       attempts (events run) = map (\<lambda>i. fst (calls apiCall i s)) [0 ..< Suc n] \<and>
       run = ((fst (calls apiCall n s), events run), snd (calls apiCall n s)) \<and>
       (\<forall>i < n. failed_transient (calls apiCall i s)) \<and>
       (int n = max retries 0 \<or> \<not> failed_transient (calls apiCall n s))"
proof (induction rule: withRetry_run_induct)
  case (ok apiCall retries delay s v s1)
  then show ?case
    by (intro exI[of _ 0]) (simp add: events_def failed_transient_def)
next
  case (stop apiCall retries delay s e s1)
  then show ?case
    by (intro exI[of _ 0]) (auto simp add: events_def failed_transient_def not_transient_iff)
next
  case (again apiCall retries delay s e s1 r evs s2)
  from again(5) obtain n where n:
    "int n \<le> max (retries - 1) 0"
    "attempts evs = map (\<lambda>i. fst (calls apiCall i s1)) [0 ..< Suc n]"
    "((r, evs), s2) = ((fst (calls apiCall n s1), evs), snd (calls apiCall n s1))"
    "\<forall>i < n. failed_transient (calls apiCall i s1)"
    "int n = max (retries - 1) 0 \<or> \<not> failed_transient (calls apiCall n s1)"
    by (auto simp add: events_def)
  from again(1) have step: "calls apiCall (Suc i) s = calls apiCall i s1" for i
    by simp
  from again(1,3) have first: "failed_transient (calls apiCall 0 s)"
    by (simp add: failed_transient_def not_transient_iff)
  have "int (Suc n) \<le> max retries 0"
    using n(1) again(2) by simp
  moreover have "attempts (events ((r, Attempt (Inl e) # Sleep delay # evs), s2)) =
      map (\<lambda>i. fst (calls apiCall i s)) [0 ..< Suc (Suc n)]"
  proof -
    have "map (\<lambda>i. fst (calls apiCall i s)) [0 ..< Suc (Suc n)] =
        fst (calls apiCall 0 s) # map (\<lambda>i. fst (calls apiCall (Suc i) s)) [0 ..< Suc n]"
      by (simp only: map_upt_Suc)
    with n(2) again(1) show ?thesis
      by (simp add: events_def del: upt_Suc)
  qed
  moreover have "((r, Attempt (Inl e) # Sleep delay # evs), s2) =
      ((fst (calls apiCall (Suc n) s), events ((r, Attempt (Inl e) # Sleep delay # evs), s2)),
       snd (calls apiCall (Suc n) s))"
    using n(3) step by (simp add: events_def)
  moreover have "\<forall>i < Suc n. failed_transient (calls apiCall i s)"
  proof (intro allI impI)
    fix i assume "i < Suc n"
    show "failed_transient (calls apiCall i s)"
    proof (cases i)
      case 0 with first show ?thesis by simp
    next
      case (Suc j)
      with \<open>i < Suc n\<close> n(4) step[of j] show ?thesis by simp
    qed
  qed
  moreover have "int (Suc n) = max retries 0 \<or> \<not> failed_transient (calls apiCall (Suc n) s)"
    using n(5) again(2) step[of n] by auto
  ultimately show ?case
    by (intro exI[of _ "Suc n"]) blast
qed

text \<open>
  Claim C1. The helper starts the call again only after a failure that is a network
  error (an error of axios without a response) or a response of status 500: every
  attempt of a run but the last one failed in that way. An error that carries a response
  of any other status (401 and the other 4xx among them) is thrown to the caller at once:
  the run is that single attempt, no timer, no second attempt; and wherever such an
  error occurs in a run, it is the last attempt and the outcome of the run.
\<close>

theorem withRetry_retries_only_transient:
  "(\<forall>x \<in> set (butlast (attempts (events (withRetry apiCall retries delay s)))).
      \<exists>e. x = Inl e \<and> isAxiosError e \<and> (response_of e = None \<or> status_of e = Some 500))
   \<and> (\<forall>e r s1. apiCall s = (Inl e, s1) \<and> response_of e = Some r \<and> status r \<noteq> 500 \<longrightarrow>
          withRetry apiCall retries delay s = ((Inl e, [Attempt (Inl e)]), s1))
   \<and> (\<forall>i e r. i < length (attempts (events (withRetry apiCall retries delay s))) \<and>
          attempts (events (withRetry apiCall retries delay s)) ! i = Inl e \<and>
          response_of e = Some r \<and> status r \<noteq> 500 \<longrightarrow>
          Suc i = length (attempts (events (withRetry apiCall retries delay s))) \<and>
          outcome (withRetry apiCall retries delay s) = Inl e)"
proof (intro conjI allI impI)
  let ?as = "attempts (events (withRetry apiCall retries delay s))"
  have early: "\<forall>x \<in> set (butlast ?as). \<exists>e. x = Inl e \<and> transient e"
    by (rule run_butlast_transient) (rule refl)
  then show "\<forall>x \<in> set (butlast ?as).
      \<exists>e. x = Inl e \<and> isAxiosError e \<and> (response_of e = None \<or> status_of e = Some 500)"
    by (simp add: transient_def)
  {
    fix e r s1
    assume h: "apiCall s = (Inl e, s1) \<and> response_of e = Some r \<and> status r \<noteq> 500"
    then have "not_transient e"
      by (cases e) (simp_all add: not_transient_def status_of_def)
    with h show "withRetry apiCall retries delay s = ((Inl e, [Attempt (Inl e)]), s1)"
      by (simp add: withRetry_stop)
  }
  {
    fix i e r
    assume h: "i < length ?as \<and> ?as ! i = Inl e \<and> response_of e = Some r \<and> status r \<noteq> 500"
    then have nt: "\<not> transient e"
      by (simp add: transient_def status_of_def)
    show last: "Suc i = length ?as"
    proof (rule ccontr)
      assume "Suc i \<noteq> length ?as"
      with h have "i < length (butlast ?as)" by auto
      then have "butlast ?as ! i \<in> set (butlast ?as)" by (rule nth_mem)
      moreover from \<open>i < length (butlast ?as)\<close> have "butlast ?as ! i = ?as ! i"
        by (rule nth_butlast)
      ultimately have "Inl e \<in> set (butlast ?as)" using h by simp
      with early nt show False by auto
    qed
    have "outcome (withRetry apiCall retries delay s) = last ?as"
      by (rule run_outcome_last) (rule refl)
    also have "last ?as = Inl e"
    proof -
      have ne: "?as \<noteq> []" by (rule run_attempts_nonempty) (rule refl)
      from last have idx: "length ?as - 1 = i" by arith
      from ne have "last ?as = ?as ! (length ?as - 1)" by (rule last_conv_nth)
      with idx h show ?thesis by simp
    qed
    finally show "outcome (withRetry apiCall retries delay s) = Inl e" .
  }
qed

theorem withRetry_retries_only_transient_witness:
  "Inl (AxiosError None) \<in> set (butlast (attempts (events
      (withRetry (api_data GET ''/bookings'' []) 2 1000 (tab (down_then 1 (Received (reply 401 None)))))))) \<and>
   isAxiosError (AxiosError None) \<and> response_of (AxiosError None) = None \<and>
   fst (api_data GET ''/bookings'' [] (tab (always (Received (reply 401 None))))) =
     Inl (AxiosError (Some (reply 401 None))) \<and>
   response_of (AxiosError (Some (reply 401 None))) = Some (reply 401 None) \<and>
   status (reply 401 None) \<noteq> 500 \<and>
   fst (withRetry (api_data GET ''/bookings'' []) 2 1000 (tab (always (Received (reply 401 None))))) =
     (Inl (AxiosError (Some (reply 401 None))), [Attempt (Inl (AxiosError (Some (reply 401 None))))])"
proof -
  let ?call = "api_data GET ''/bookings'' []"
  let ?e = "AxiosError (Some (reply 401 None))"
  have retried: "Inl (AxiosError None) \<in> set (butlast (attempts (events
      (withRetry ?call 2 1000 (tab (down_then 1 (Received (reply 401 None))))))))"
    by code_simp
  have first: "fst (?call (tab (always (Received (reply 401 None))))) = Inl ?e"
    by code_simp
  have st: "status (reply 401 None) \<noteq> 500"
    by (simp add: reply_def)
  from first have "?call (tab (always (Received (reply 401 None)))) =
      (Inl ?e, snd (?call (tab (always (Received (reply 401 None))))))"
    by (metis prod.collapse)
  with st withRetry_retries_only_transient[of ?call 2 1000 "tab (always (Received (reply 401 None)))"]
  have "withRetry ?call 2 1000 (tab (always (Received (reply 401 None)))) =
      ((Inl ?e, [Attempt (Inl ?e)]), snd (?call (tab (always (Received (reply 401 None))))))"
    by simp
  with retried first st show ?thesis by simp
qed

text \<open>
  Claim C2. With the default arguments the helper invokes the wrapped call at least once
  and at most three times (for any budget \<open>retries\<close>, at most \<open>retries + 1\<close> times):
  there is \<open>n \<le> 2\<close> such that the call was invoked \<open>n + 1\<close> times in a row, each time
  on the state left by the invocation before; the log of attempts is what these
  invocations returned, in order; the state left is the state after the last of them;
  and what the helper gives back is what the last invocation returned, unchanged. The
  invocations before the last one failed with a transient error, and the last one
  either did not or was the third. So when the first three invocations all fail with a
  transient error, the budget is exhausted and the caller gets the error of the third
  invocation, in the state after three invocations.
\<close>

theorem withRetry_bounded:
  "length (attempts (events (withRetry apiCall retries delay s))) \<le> nat retries + 1 \<and>
   1 \<le> length (attempts (events (withRetry_default apiCall s))) \<and>
   length (attempts (events (withRetry_default apiCall s))) \<le> 3 \<and>
   outcome (withRetry_default apiCall s) = last (attempts (events (withRetry_default apiCall s))) \<and>
   (\<exists>n \<le> 2.
      attempts (events (withRetry_default apiCall s)) =
        map (\<lambda>i. fst (calls apiCall i s)) [0 ..< Suc n] \<and>
      outcome (withRetry_default apiCall s) = fst (calls apiCall n s) \<and>
      snd (withRetry_default apiCall s) = snd (calls apiCall n s) \<and>
      (\<forall>i < n. failed_transient (calls apiCall i s)) \<and>
      (n = 2 \<or> \<not> failed_transient (calls apiCall n s))) \<and>
   ((\<forall>i < 3. failed_transient (calls apiCall i s)) \<longrightarrow>
      outcome (withRetry_default apiCall s) = fst (calls apiCall 2 s) \<and>
      snd (withRetry_default apiCall s) = snd (calls apiCall 2 s))"
proof -
  let ?run = "withRetry_default apiCall s"
  have bound: "length (attempts (events (withRetry apiCall retries delay s))) \<le> nat retries + 1"
    by (rule run_attempts_bound) (rule refl)
  have "attempts (events ?run) \<noteq> []"
    unfolding withRetry_default_def by (rule run_attempts_nonempty) (rule refl)
  then have least: "1 \<le> length (attempts (events ?run))"
    by (cases "attempts (events ?run)") simp_all
  have "length (attempts (events (withRetry apiCall 2 1000 s))) \<le> nat 2 + 1"
    by (rule run_attempts_bound) (rule refl)
  then have most: "length (attempts (events ?run)) \<le> 3"
    by (simp add: withRetry_default_def)
  have last: "outcome ?run = last (attempts (events ?run))"
    unfolding withRetry_default_def by (rule run_outcome_last) (rule refl)
  have "\<exists>n. int n \<le> max 2 0 \<and>
       attempts (events ?run) = map (\<lambda>i. fst (calls apiCall i s)) [0 ..< Suc n] \<and>
       ?run = ((fst (calls apiCall n s), events ?run), snd (calls apiCall n s)) \<and>
       (\<forall>i < n. failed_transient (calls apiCall i s)) \<and>
       (int n = max 2 0 \<or> \<not> failed_transient (calls apiCall n s))"
    by (rule run_calls) (simp add: withRetry_default_def)
  then obtain n where n:
    "n \<le> 2"
    "attempts (events ?run) = map (\<lambda>i. fst (calls apiCall i s)) [0 ..< Suc n]"
    "?run = ((fst (calls apiCall n s), events ?run), snd (calls apiCall n s))"
    "\<forall>i < n. failed_transient (calls apiCall i s)"
    "n = 2 \<or> \<not> failed_transient (calls apiCall n s)"
    by auto
  from n(3) have out: "outcome ?run = fst (calls apiCall n s)"
    by (metis fst_conv outcome_def)
  from n(3) have left: "snd ?run = snd (calls apiCall n s)"
    by (metis snd_conv)
  have exhausted: "outcome ?run = fst (calls apiCall 2 s) \<and> snd ?run = snd (calls apiCall 2 s)"
    if all: "\<forall>i < 3. failed_transient (calls apiCall i s)"
  proof -
    from n(1) all have "failed_transient (calls apiCall n s)" by simp
    with n(5) have "n = 2" by simp
    with out left show ?thesis by simp
  qed
  from n(1,2,4,5) out left
  have "\<exists>n \<le> 2.
      attempts (events ?run) = map (\<lambda>i. fst (calls apiCall i s)) [0 ..< Suc n] \<and>
      outcome ?run = fst (calls apiCall n s) \<and>
      snd ?run = snd (calls apiCall n s) \<and>
      (\<forall>i < n. failed_transient (calls apiCall i s)) \<and>
      (n = 2 \<or> \<not> failed_transient (calls apiCall n s))"
    by blast
  with bound least most last exhausted show ?thesis
    by blast
qed

theorem withRetry_bounded_witness:
  "failed_transient (calls (api_data GET ''/bookings'' []) 0
      (tab (always (Received (reply 500 (Some ''boom'')))))) \<and>
   failed_transient (calls (api_data GET ''/bookings'' []) 1
      (tab (always (Received (reply 500 (Some ''boom'')))))) \<and>
   failed_transient (calls (api_data GET ''/bookings'' []) 2
      (tab (always (Received (reply 500 (Some ''boom'')))))) \<and>
   outcome (withRetry_default (api_data GET ''/bookings'' [])
      (tab (always (Received (reply 500 (Some ''boom'')))))) =
     Inl (AxiosError (Some (reply 500 (Some ''boom'')))) \<and>
   length (sent (snd (withRetry_default (api_data GET ''/bookings'' [])
      (tab (always (Received (reply 500 (Some ''boom'')))))))) = 3 \<and>
   attempts (events (withRetry_default (api_data GET ''/bookings'' [])
      (tab (always (Received (reply 500 (Some ''boom''))))))) =
     [Inl (AxiosError (Some (reply 500 (Some ''boom'')))),
      Inl (AxiosError (Some (reply 500 (Some ''boom'')))),
      Inl (AxiosError (Some (reply 500 (Some ''boom''))))]"
proof -
  let ?call = "api_data GET ''/bookings'' [] :: world \<Rightarrow> (err + body) \<times> world"
  let ?w = "tab (always (Received (reply 500 (Some ''boom''))))"
  let ?e = "AxiosError (Some (reply 500 (Some ''boom'')))"
  have f0: "failed_transient (calls ?call 0 ?w)" by code_simp
  have f1: "failed_transient (calls ?call 1 ?w)" by code_simp
  have f2: "failed_transient (calls ?call 2 ?w)" by code_simp
  have all: "\<forall>i < 3. failed_transient (calls ?call i ?w)"
  proof (intro allI impI)
    fix i :: nat assume "i < 3"
    then have "i = 0 \<or> i = 1 \<or> i = 2" by arith
    with f0 f1 f2 show "failed_transient (calls ?call i ?w)" by auto
  qed
  have third: "fst (calls ?call 2 ?w) = Inl ?e" by code_simp
  have three: "length (sent (snd (calls ?call 2 ?w))) = 3" by code_simp
  have log: "attempts (events (withRetry_default ?call ?w)) = [Inl ?e, Inl ?e, Inl ?e]"
    by code_simp
  from all withRetry_bounded[of ?call 2 1000 ?w]
  have "outcome (withRetry_default ?call ?w) = fst (calls ?call 2 ?w) \<and>
      snd (withRetry_default ?call ?w) = snd (calls ?call 2 ?w)"
    by blast
  with third three f0 f1 f2 log show ?thesis by simp
qed

text \<open>
  Claim C3. In a run with the default arguments nothing is waited for before the first
  attempt, exactly one timer runs between an attempt and the next one, and the timer
  before the \<open>k\<close>-th retry (\<open>k\<close> from 1) is \<open>1000 * 1.5 ^ (k - 1)\<close> milliseconds: 1000
  before the first retry and 1500 before the second. The factor 1.5 is greater than 1.
\<close>

theorem withRetry_backoff:
  "alternating (events (withRetry_default apiCall s)) \<and>
   length (delays (events (withRetry_default apiCall s))) =
     length (attempts (events (withRetry_default apiCall s))) - 1 \<and>
   (\<forall>k. 1 \<le> k \<and> k \<le> length (delays (events (withRetry_default apiCall s))) \<longrightarrow>
        delays (events (withRetry_default apiCall s)) ! (k - 1) = 1000 * (3 / 2) ^ (k - 1)) \<and>
   (1 :: rat) < 3 / 2"
proof -
  let ?ev = "events (withRetry_default apiCall s)"
  have alt: "alternating ?ev"
    unfolding withRetry_default_def by (rule run_alternating) (rule refl)
  have ds: "delays ?ev = map (\<lambda>k. 1000 * (3 / 2) ^ k) [0 ..< length (attempts ?ev) - 1]"
    unfolding withRetry_default_def by (rule run_delays) (rule refl)
  then have len: "length (delays ?ev) = length (attempts ?ev) - 1"
    by simp
  have "delays ?ev ! (k - 1) = 1000 * (3 / 2) ^ (k - 1)"
    if "1 \<le> k \<and> k \<le> length (delays ?ev)" for k
  proof -
    from that len have "k - 1 < length (attempts ?ev) - 1" by arith
    then have "map (\<lambda>k. 1000 * (3 / 2 :: rat) ^ k) [0 ..< length (attempts ?ev) - 1] ! (k - 1) =
        1000 * (3 / 2) ^ (k - 1)"
      by simp
    with ds show ?thesis by simp
  qed
  with alt len show ?thesis by simp
qed

theorem withRetry_backoff_witness:
  "events (withRetry_default (api_data GET ''/bookings'' []) (tab (always NoResponse))) =
     [Attempt (Inl (AxiosError None)), Sleep 1000, Attempt (Inl (AxiosError None)),
      Sleep 1500, Attempt (Inl (AxiosError None))] \<and>
   (1 :: nat) \<le> 2 \<and>
   2 \<le> length (delays (events (withRetry_default (api_data GET ''/bookings'' []) (tab (always NoResponse))))) \<and>
   delays (events (withRetry_default (api_data GET ''/bookings'' []) (tab (always NoResponse)))) ! (2 - 1) =
     1000 * (3 / 2) ^ (2 - 1)"
proof -
  let ?ev = "events (withRetry_default (api_data GET ''/bookings'' []) (tab (always NoResponse)))"
  have ev: "?ev = [Attempt (Inl (AxiosError None)), Sleep 1000, Attempt (Inl (AxiosError None)),
      Sleep 1500, Attempt (Inl (AxiosError None))]"
    by code_simp
  then have two: "(1 :: nat) \<le> 2 \<and> 2 \<le> length (delays ?ev)"
    by simp
  with withRetry_backoff[of "api_data GET ''/bookings'' []" "tab (always NoResponse)"]
  have "delays ?ev ! (2 - 1) = 1000 * (3 / 2) ^ (2 - 1)"
    by blast
  with ev two show ?thesis by simp
qed

section \<open>Properties of the route guard and the session manager\<close>

text \<open>
  Claim C4. For every combination of \<open>initializing\<close> and \<open>isAuthenticated\<close>, the guard
  made by \<open>withAuth\<close> renders the wrapped component exactly when \<open>initializing\<close> is
  false and \<open>isAuthenticated\<close> is true: never while \<open>initializing\<close> is true and never
  while \<open>isAuthenticated\<close> is false. While \<open>initializing\<close> is true it renders the
  loading placeholder and redirects nowhere; when \<open>initializing\<close> is false and
  \<open>isAuthenticated\<close> is false it renders \<open>null\<close> and its effect replaces the route
  by \<open>/login\<close>. Inside a provider, \<open>withAuth\<close> is this guard on the flags of the
  provider's state.
\<close>

theorem withAuth_guard:
  "((\<exists>c. fst (ProtectedRoute Component props authenticated initializing w) = Wrapped c) =
      (\<not> initializing \<and> authenticated)) \<and>
   ProtectedRoute Component props authenticated True w = (LoadingPlaceholder, w) \<and>
   ProtectedRoute Component props False False w = (NullView, router_go (Replace ''/login'') w) \<and>
   ProtectedRoute Component props True False w = (Wrapped (Component props), w) \<and>
   withAuth Component props (Some a) w =
     Inr (ProtectedRoute Component props (isAuthenticated a) (loading a) w)"
  by (simp add: ProtectedRoute_def withAuth_def useAuth_def)

theorem withAuth_guard_witness:
  "fst (ProtectedRoute (\<lambda>p :: string. p @ ''!'') ''page'' True False (fresh_tab (always NoResponse))) =
     Wrapped ''page!'' \<and>
   fst (ProtectedRoute (\<lambda>p :: string. p @ ''!'') ''page'' False False (fresh_tab (always NoResponse))) =
     NullView \<and>
   routed (snd (ProtectedRoute (\<lambda>p :: string. p @ ''!'') ''page'' False False (fresh_tab (always NoResponse)))) =
     [Replace ''/login''] \<and>
   fst (ProtectedRoute (\<lambda>p :: string. p @ ''!'') ''page'' False True (fresh_tab (always NoResponse))) =
     LoadingPlaceholder"
  using withAuth_guard[of "\<lambda>p :: string. p @ ''!''" "''page''" True False "fresh_tab (always NoResponse)"]
    withAuth_guard[of "\<lambda>p :: string. p @ ''!''" "''page''" False False "fresh_tab (always NoResponse)"]
    withAuth_guard[of "\<lambda>p :: string. p @ ''!''" "''page''" False True "fresh_tab (always NoResponse)"]
  by (simp add: router_go_def fresh_tab_def)

lemma loadUser_settles:
  "fst (loadUser (a, w)) = Inr () \<and> loading (fst (snd (loadUser (a, w)))) = False"
  by (simp add: loadUser_def split: prod.splits sum.splits body.splits option.splits)

lemma loadUser_failed:
  "fst (authService_getCurrentUser w) = Inl e \<Longrightarrow>
   session (fst (snd (loadUser (a, w)))) = session a"
  by (cases "authService_getCurrentUser w") (auto simp add: loadUser_def)

text \<open>
  Claim C5. Startup with a token in the cookie, when fetching the current user fails:
  the promise of the startup check is fulfilled (nothing is thrown), the session is the
  one from before, which at startup is none, and \<open>loading\<close> (the flag \<open>initializing\<close>)
  is false. Startup without a token (no cookie, or an empty one): \<open>loading\<close> is set to
  false and nothing else happens; in particular no request is sent.
\<close>

theorem startup_check:
  "(truthy (Cookies_get auth_token w) \<and> fst (authService_getCurrentUser w) = Inl e \<longrightarrow>
      fst (AuthProvider_mount (a, w)) = Inr () \<and>
      session (fst (snd (AuthProvider_mount (a, w)))) = session a \<and>
      session (fst (snd (AuthProvider_mount (initial_auth, w)))) = None \<and>
      loading (fst (snd (AuthProvider_mount (a, w)))) = False) \<and>
   (\<not> truthy (Cookies_get auth_token w) \<longrightarrow>
      AuthProvider_mount (a, w) = (Inr (), a\<lparr>loading := False\<rparr>, w) \<and>
      sent (snd (snd (AuthProvider_mount (a, w)))) = sent w)"
proof (intro conjI impI)
  assume h: "truthy (Cookies_get auth_token w) \<and> fst (authService_getCurrentUser w) = Inl e"
  then have mount: "AuthProvider_mount (b, w) = loadUser (b, w)" for b
    by (simp add: AuthProvider_mount_def)
  from mount show "fst (AuthProvider_mount (a, w)) = Inr ()"
    by (simp add: loadUser_settles)
  from mount h show "session (fst (snd (AuthProvider_mount (a, w)))) = session a"
    by (simp add: loadUser_failed)
  from mount h show "session (fst (snd (AuthProvider_mount (initial_auth, w)))) = None"
    by (simp add: loadUser_failed initial_auth_def)
  from mount show "loading (fst (snd (AuthProvider_mount (a, w)))) = False"
    by (simp add: loadUser_settles)
next
  assume "\<not> truthy (Cookies_get auth_token w)"
  then show "AuthProvider_mount (a, w) = (Inr (), a\<lparr>loading := False\<rparr>, w)"
    by (simp add: AuthProvider_mount_def)
  then show "sent (snd (snd (AuthProvider_mount (a, w)))) = sent w"
    by simp
qed

theorem startup_check_witness:
  "truthy (Cookies_get auth_token (tab (always (Received (reply 401 None))))) \<and>
   fst (authService_getCurrentUser (tab (always (Received (reply 401 None))))) =
     Inl (AxiosError (Some (reply 401 None))) \<and>
   fst (AuthProvider_mount (initial_auth, tab (always (Received (reply 401 None))))) = Inr () \<and>
   session (fst (snd (AuthProvider_mount (initial_auth, tab (always (Received (reply 401 None))))))) = None \<and>
   loading (fst (snd (AuthProvider_mount (initial_auth, tab (always (Received (reply 401 None))))))) = False \<and>
   \<not> truthy (Cookies_get auth_token (fresh_tab (always (Received login_ok)))) \<and>
   sent (snd (snd (AuthProvider_mount (initial_auth, fresh_tab (always (Received login_ok)))))) = [] \<and>
   loading (fst (snd (AuthProvider_mount (initial_auth, fresh_tab (always (Received login_ok)))))) = False"
proof -
  let ?w = "tab (always (Received (reply 401 None)))"
  let ?v = "fresh_tab (always (Received login_ok))"
  have tok: "truthy (Cookies_get auth_token ?w)"
    by (simp add: truthy_def Cookies_get_def tab_def)
  have fails: "fst (authService_getCurrentUser ?w) = Inl (AxiosError (Some (reply 401 None)))"
    by code_simp
  have none: "\<not> truthy (Cookies_get auth_token ?v)"
    by (simp add: truthy_def Cookies_get_def fresh_tab_def)
  have empty: "sent ?v = []"
    by (simp add: fresh_tab_def)
  from tok fails startup_check[of ?w "AxiosError (Some (reply 401 None))" initial_auth]
  have a: "fst (AuthProvider_mount (initial_auth, ?w)) = Inr () \<and>
      session (fst (snd (AuthProvider_mount (initial_auth, ?w)))) = None \<and>
      loading (fst (snd (AuthProvider_mount (initial_auth, ?w)))) = False"
    by (simp add: initial_auth_def)
  from none empty startup_check[of ?v TypeError initial_auth]
  have b: "sent (snd (snd (AuthProvider_mount (initial_auth, ?v)))) = [] \<and>
      loading (fst (snd (AuthProvider_mount (initial_auth, ?v)))) = False"
    by simp
  from tok fails none a b show ?thesis by simp
qed

subsection \<open>What a request through the gateway changes\<close>

lemma axios_send_world: "snd (axios_send config w) = w\<lparr>sent := sent w @ [config]\<rparr>"
  by (simp add: axios_send_def Let_def split: transport.splits)

lemma axios_send_Inr:
  "axios_send config w = (Inr r, w1) \<Longrightarrow>
   server w (length (sent w)) config = Received r \<and> 200 \<le> status r \<and> status r < 300"
  by (auto simp add: axios_send_def Let_def split: transport.splits if_splits)

lemma response_rejected_fst: "fst (response_rejected config e w) = Inl e"
  by (simp add: response_rejected_def Let_def split: option.splits)

lemma on_unauthorized_cookies:
  "cookies (on_unauthorized w) = (cookies w)(auth_token := None) \<and>
   cookie_ops (on_unauthorized w) = cookie_ops w @ [RemoveCookie auth_token]"
  by (simp add: on_unauthorized_def Cookies_remove_def set_href_def Let_def split: option.splits)

lemma on_server_error_cookies:
  "cookies (on_server_error r w) = cookies w \<and> cookie_ops (on_server_error r w) = cookie_ops w"
  by (simp add: on_server_error_def toast_show_def Let_def)

lemma response_rejected_cookies: "no_token_written w (snd (response_rejected config e w))"
  by (simp add: response_rejected_def no_token_written_def Let_def toast_show_def
      on_unauthorized_cookies on_server_error_cookies split: option.splits)

lemma api_request_Inr:
  "api_request m path p w = (Inr r, w1) \<Longrightarrow>
   cookies w1 = cookies w \<and> cookie_ops w1 = cookie_ops w"
proof -
  assume h: "api_request m path p w = (Inr r, w1)"
  let ?config = "api_config m path p w"
  obtain res w0 where sent: "axios_send ?config w = (res, w0)"
    by (cases "axios_send ?config w")
  with axios_send_world[of ?config w] have w0: "w0 = w\<lparr>sent := sent w @ [?config]\<rparr>"
    by simp
  show ?thesis
  proof (cases res)
    case (Inl e)
    with h sent response_rejected_fst[of ?config e w0] show ?thesis
      by (simp add: api_request_def Let_def)
  next
    case (Inr r')
    with h sent w0 show ?thesis
      by (auto simp add: api_request_def Let_def)
  qed
qed

lemma api_request_cookies: "no_token_written w (snd (api_request m path p w))"
proof -
  let ?config = "api_config m path p w"
  obtain res w0 where sent: "axios_send ?config w = (res, w0)"
    by (cases "axios_send ?config w")
  with axios_send_world[of ?config w] have w0: "w0 = w\<lparr>sent := sent w @ [?config]\<rparr>"
    by simp
  show ?thesis
  proof (cases res)
    case (Inl e)
    from response_rejected_cookies[of w0 ?config e] w0
    have "no_token_written w (snd (response_rejected ?config e w0))"
      by (simp add: no_token_written_def)
    with sent Inl show ?thesis
      by (simp add: api_request_def Let_def)
  next
    case (Inr r)
    with sent w0 show ?thesis
      by (simp add: api_request_def Let_def no_token_written_def)
  qed
qed

subsection \<open>Login\<close>

text \<open>
  Claim C6, as it is written, fails on a successful response that returns the token and
  the user record in the shape \<open>{token, user}\<close>: the session manager reads the user at
  \<open>data.user\<close> of the body, the access throws a \<open>TypeError\<close>, the login is rejected
  with it and the session stays empty, although the credential exchange succeeded and
  the token was stored.
\<close>

theorem login_flat_body_counterexample:
  "fst (api_request POST ''/auth/login'' [(''email'', ''a@b.com''), (''password'', ''pw'')]
        (fresh_tab (always (Received flat_ok)))) = Inr flat_ok \<and>
   status flat_ok = 200 \<and>
   body_truthy (data flat_ok) \<and>
   fst (authService_login ''a@b.com'' ''pw'' (fresh_tab (always (Received flat_ok)))) =
     Inr (data flat_ok) \<and>
   fst (login ''a@b.com'' ''pw'' (initial_auth, fresh_tab (always (Received flat_ok)))) =
     Inl TypeError \<and>
   session (fst (snd (login ''a@b.com'' ''pw'' (initial_auth, fresh_tab (always (Received flat_ok)))))) =
     None \<and>
   cookies (snd (snd (login ''a@b.com'' ''pw'' (initial_auth, fresh_tab (always (Received flat_ok))))))
     ''auth_token'' = Some \<lparr>c_value = ''t1'', c_expires = 30\<rparr>"
  by code_simp

text \<open>
  Claim C6, amended. When the credential exchange \<open>POST /auth/login\<close> is answered with a
  successful response whose body carries a token (not empty) and the user record at
  \<open>data.user\<close>, where the session manager reads it, the login is fulfilled, the session
  is that user record, and the cookie \<open>auth_token\<close> holds the returned token with an
  expiry of 30 days: the durable token is not empty.
\<close>

theorem login_success:
  "api_request POST ''/auth/login'' [(''email'', email), (''password'', password)] w = (Inr r, w1) \<and>
   data r = Obj f \<and> token f = Some t \<and> t \<noteq> [] \<and> data_of f = Some d \<and> user_of d = Some u \<longrightarrow>
     fst (login email password (a, w)) = Inr () \<and>
     session (fst (snd (login email password (a, w)))) = Some u \<and>
     cookies (snd (snd (login email password (a, w)))) ''auth_token'' =
       Some \<lparr>c_value = t, c_expires = 30\<rparr> \<and>
     truthy (Cookies_get ''auth_token'' (snd (snd (login email password (a, w))))) \<and>
     SetCookie ''auth_token'' t 30 \<in> set (cookie_ops (snd (snd (login email password (a, w)))))"
  by (simp add: login_def authService_login_def Let_def Cookies_set_def Cookies_get_def
      truthy_def toast_show_def router_go_def auth_token_def)

theorem login_success_witness:
  "fst (api_request POST ''/auth/login'' [(''email'', ''a@b.com''), (''password'', ''pw'')]
        (fresh_tab (always (Received login_ok)))) = Inr login_ok \<and>
   fst (login ''a@b.com'' ''pw'' (initial_auth, fresh_tab (always (Received login_ok)))) = Inr () \<and>
   session (fst (snd (login ''a@b.com'' ''pw'' (initial_auth, fresh_tab (always (Received login_ok)))))) =
     Some alice \<and>
   cookies (snd (snd (login ''a@b.com'' ''pw'' (initial_auth, fresh_tab (always (Received login_ok))))))
     ''auth_token'' = Some \<lparr>c_value = ''t1'', c_expires = 30\<rparr>"
proof -
  let ?w = "fresh_tab (always (Received login_ok))"
  let ?call = "api_request POST ''/auth/login'' [(''email'', ''a@b.com''), (''password'', ''pw'')] ?w"
  have ok: "fst ?call = Inr login_ok"
    by code_simp
  then have call: "?call = (Inr login_ok, snd ?call)"
    by (metis prod.collapse)
  have body: "data login_ok = Obj \<lparr>message = None, token = Some ''t1'',
        data_of = Some \<lparr>user_of = Some alice\<rparr>, user_top = None\<rparr>"
    by (simp add: login_ok_def)
  from call body
    login_success[of "''a@b.com''" "''pw''" ?w login_ok "snd ?call"
      "\<lparr>message = None, token = Some ''t1'', data_of = Some \<lparr>user_of = Some alice\<rparr>, user_top = None\<rparr>"
      "''t1''" "\<lparr>user_of = Some alice\<rparr>" alice initial_auth]
  have "fst (login ''a@b.com'' ''pw'' (initial_auth, ?w)) = Inr () \<and>
      session (fst (snd (login ''a@b.com'' ''pw'' (initial_auth, ?w)))) = Some alice \<and>
      cookies (snd (snd (login ''a@b.com'' ''pw'' (initial_auth, ?w)))) ''auth_token'' =
        Some \<lparr>c_value = ''t1'', c_expires = 30\<rparr>"
    by simp
  with ok show ?thesis by simp
qed

lemma authService_login_Inl:
  "fst (authService_login email password w) = Inl e \<Longrightarrow>
   no_token_written w (snd (authService_login email password w))"
proof -
  assume h: "fst (authService_login email password w) = Inl e"
  let ?call = "api_request POST ''/auth/login'' [(''email'', email), (''password'', password)] w"
  obtain res w1 where call: "?call = (res, w1)" by (cases ?call)
  show ?thesis
  proof (cases res)
    case (Inl e')
    with call api_request_cookies[of w POST "''/auth/login''" "[(''email'', email), (''password'', password)]"]
    show ?thesis by (simp add: authService_login_def)
  next
    case (Inr r)
    with call have same: "cookies w1 = cookies w \<and> cookie_ops w1 = cookie_ops w"
      by (simp add: api_request_Inr)
    from h call Inr have "snd (authService_login email password w) = w1"
      by (auto simp add: authService_login_def split: body.splits option.splits if_splits)
    with same show ?thesis by (simp add: no_token_written_def)
  qed
qed

lemma login_failed_parts:
  "fst (login_failed e a w) = Inl e \<and>
   session (fst (snd (login_failed e a w))) = session a \<and>
   loading (fst (snd (login_failed e a w))) = False \<and>
   cookies (snd (snd (login_failed e a w))) = cookies w \<and>
   cookie_ops (snd (snd (login_failed e a w))) = cookie_ops w"
  by (simp add: login_failed_def Let_def toast_show_def)

text \<open>
  Claim C7. When the credential exchange throws, the login throws the same error to its
  caller, the session is the one from before (none if it was none), and no cookie is
  set: the cookie jar is as before, or the token was removed from it (by the gateway,
  on a response of status 401).
\<close>

theorem login_failure:
  "fst (authService_login email password w) = Inl e \<longrightarrow>
     fst (login email password (a, w)) = Inl e \<and>
     session (fst (snd (login email password (a, w)))) = session a \<and>
     no_token_written w (snd (snd (login email password (a, w)))) \<and>
     (\<forall>k v d. SetCookie k v d \<in> set (cookie_ops (snd (snd (login email password (a, w))))) \<longrightarrow>
        SetCookie k v d \<in> set (cookie_ops w))"
proof (intro impI)
  assume h: "fst (authService_login email password w) = Inl e"
  obtain w1 where call: "authService_login email password w = (Inl e, w1)"
    using h by (cases "authService_login email password w") simp
  then have run: "login email password (a, w) = login_failed e (a\<lparr>loading := True\<rparr>) w1"
    by (simp add: login_def Let_def)
  from authService_login_Inl[OF h] call have kept: "no_token_written w w1"
    by simp
  with login_failed_parts[of e "a\<lparr>loading := True\<rparr>" w1]
  have written: "no_token_written w (snd (snd (login_failed e (a\<lparr>loading := True\<rparr>) w1)))"
    by (simp add: no_token_written_def)
  then have "\<forall>k v d. SetCookie k v d \<in> set (cookie_ops (snd (snd (login_failed e (a\<lparr>loading := True\<rparr>) w1)))) \<longrightarrow>
      SetCookie k v d \<in> set (cookie_ops w)"
    by (auto simp add: no_token_written_def)
  with run written login_failed_parts[of e "a\<lparr>loading := True\<rparr>" w1]
  show "fst (login email password (a, w)) = Inl e \<and>
     session (fst (snd (login email password (a, w)))) = session a \<and>
     no_token_written w (snd (snd (login email password (a, w)))) \<and>
     (\<forall>k v d. SetCookie k v d \<in> set (cookie_ops (snd (snd (login email password (a, w))))) \<longrightarrow>
        SetCookie k v d \<in> set (cookie_ops w))"
    by simp
qed

theorem login_failure_witness:
  "fst (authService_login ''a@b.com'' ''wrong''
         (fresh_tab (always (Received (reply 401 (Some ''Invalid credentials'')))))) =
     Inl (AxiosError (Some (reply 401 (Some ''Invalid credentials'')))) \<and>
   fst (login ''a@b.com'' ''wrong''
         (initial_auth, fresh_tab (always (Received (reply 401 (Some ''Invalid credentials'')))))) =
     Inl (AxiosError (Some (reply 401 (Some ''Invalid credentials'')))) \<and>
   session (fst (snd (login ''a@b.com'' ''wrong''
         (initial_auth, fresh_tab (always (Received (reply 401 (Some ''Invalid credentials'')))))))) = None \<and>
   cookies (snd (snd (login ''a@b.com'' ''wrong''
         (initial_auth, fresh_tab (always (Received (reply 401 (Some ''Invalid credentials'')))))))) ''auth_token'' =
     None \<and>
   toasts (snd (snd (login ''a@b.com'' ''wrong''
         (initial_auth, fresh_tab (always (Received (reply 401 (Some ''Invalid credentials''))))))))  =
     [Failure ''Invalid credentials'']"
proof -
  let ?w = "fresh_tab (always (Received (reply 401 (Some ''Invalid credentials''))))"
  let ?e = "AxiosError (Some (reply 401 (Some ''Invalid credentials'')))"
  have fails: "fst (authService_login ''a@b.com'' ''wrong'' ?w) = Inl ?e"
    by code_simp
  have shown: "toasts (snd (snd (login ''a@b.com'' ''wrong'' (initial_auth, ?w)))) =
      [Failure ''Invalid credentials'']"
    by code_simp
  have jar: "cookies ?w = Map.empty"
    by (simp add: fresh_tab_def)
  from fails login_failure[of "''a@b.com''" "''wrong''" ?w ?e initial_auth]
  have "fst (login ''a@b.com'' ''wrong'' (initial_auth, ?w)) = Inl ?e \<and>
      session (fst (snd (login ''a@b.com'' ''wrong'' (initial_auth, ?w)))) = None \<and>
      no_token_written ?w (snd (snd (login ''a@b.com'' ''wrong'' (initial_auth, ?w))))"
    by (simp add: initial_auth_def)
  with jar have "fst (login ''a@b.com'' ''wrong'' (initial_auth, ?w)) = Inl ?e \<and>
      session (fst (snd (login ''a@b.com'' ''wrong'' (initial_auth, ?w)))) = None \<and>
      cookies (snd (snd (login ''a@b.com'' ''wrong'' (initial_auth, ?w)))) ''auth_token'' = None"
    by (auto simp add: no_token_written_def)
  with fails shown show ?thesis by simp
qed

subsection \<open>Responses of status 401\<close>

lemma api_config_retry_mark: "\<not> retry_mark (api_config m path p w)"
  by (simp add: api_config_def request_interceptor_def split: option.splits)

lemma api_request_401:
  assumes "server w (length (sent w)) (api_config m path p w) = Received r"
    and "status r = 401"
  shows "api_request m path p w =
    (Inl (AxiosError (Some r)), on_unauthorized (w\<lparr>sent := sent w @ [api_config m path p w]\<rparr>))"
  using assms api_config_retry_mark[of m path p w]
  by (simp add: api_request_def axios_send_def response_rejected_def Let_def)

lemma on_unauthorized_parts:
  "cookies (on_unauthorized w) auth_token = None \<and>
   cookie_ops (on_unauthorized w) = cookie_ops w @ [RemoveCookie auth_token] \<and>
   sent (on_unauthorized w) = sent w \<and>
   href (on_unauthorized w) =
     (case pathname w of
        None \<Rightarrow> href w
      | Some loc \<Rightarrow>
          if \<not> includes_str loc ''/login'' \<and> \<not> includes_str loc ''/register''
          then href w @ [''/login''] else href w)"
  by (simp add: on_unauthorized_def Cookies_remove_def set_href_def Let_def split: option.splits)

text \<open>
  Claim C8, as it is written, fails on the one call that does not go through the
  instance \<open>api\<close>: \<open>usersAdminService.deleteUser\<close> calls axios directly, to bypass
  the interceptors. Its request is answered with status 401 on the dashboard, and the
  cookie is still there, no cookie was removed and nothing was assigned to
  \<open>window.location.href\<close>.
\<close>

theorem deleteUser_unauthorized_counterexample:
  "fst (usersAdminService_deleteUser ''u2'' (tab (always (Received (reply 401 None))))) =
     Inl (AxiosError (Some (reply 401 None))) \<and>
   status (reply 401 None) = 401 \<and>
   pathname (snd (usersAdminService_deleteUser ''u2'' (tab (always (Received (reply 401 None)))))) =
     Some ''/dashboard'' \<and>
   cookies (snd (usersAdminService_deleteUser ''u2'' (tab (always (Received (reply 401 None))))))
     ''auth_token'' = Some \<lparr>c_value = ''t0'', c_expires = 30\<rparr> \<and>
   cookie_ops (snd (usersAdminService_deleteUser ''u2'' (tab (always (Received (reply 401 None)))))) = [] \<and>
   href (snd (usersAdminService_deleteUser ''u2'' (tab (always (Received (reply 401 None)))))) = [] \<and>
   map url (sent (snd (usersAdminService_deleteUser ''u2'' (tab (always (Received (reply 401 None))))))) =
     [''http://localhost:3000/api/admin/users/delete/u2'']"
  by code_simp

text \<open>
  Claim C8, amended. When a request made through the instance \<open>api\<close> (every call of
  the services but \<open>usersAdminService.deleteUser\<close>) is answered with status 401, the
  gateway rejects it with that response, removes the cookie \<open>auth_token\<close> (one
  removal), and assigns \<open>/login\<close> to \<open>window.location.href\<close> when the path of the
  current location contains neither \<open>/login\<close> nor \<open>/register\<close>; on such a page it does
  not navigate. When the server answers every request with status 401, a wrapped call
  is attempted once: no timer, no retry, one request sent, and the cookie removed
  exactly once.
\<close>

theorem unauthorized_clears_token_once:
  "(server w (length (sent w)) (api_config m path p w) = Received r \<and> status r = 401 \<longrightarrow>
      fst (api_request m path p w) = Inl (AxiosError (Some r)) \<and>
      cookies (snd (api_request m path p w)) auth_token = None \<and>
      cookie_ops (snd (api_request m path p w)) = cookie_ops w @ [RemoveCookie auth_token] \<and>
      (\<forall>loc. pathname w = Some loc \<and> \<not> includes_str loc ''/login'' \<and>
             \<not> includes_str loc ''/register'' \<longrightarrow>
         href (snd (api_request m path p w)) = href w @ [''/login'']) \<and>
      (\<forall>loc. pathname w = Some loc \<and>
             (includes_str loc ''/login'' \<or> includes_str loc ''/register'') \<longrightarrow>
         href (snd (api_request m path p w)) = href w)) \<and>
   ((\<forall>n q. \<exists>r. server w n q = Received r \<and> status r = 401) \<longrightarrow>
      (\<exists>e. events (withRetry_default (api_data m path p) w) = [Attempt (Inl e)] \<and>
           outcome (withRetry_default (api_data m path p) w) = Inl e \<and>
           status_of e = Some 401) \<and>
      length (sent (snd (withRetry_default (api_data m path p) w))) = length (sent w) + 1 \<and>
      cookie_ops (snd (withRetry_default (api_data m path p) w)) =
        cookie_ops w @ [RemoveCookie auth_token] \<and>
      cookies (snd (withRetry_default (api_data m path p) w)) auth_token = None)"
proof (intro conjI impI)
  assume h: "server w (length (sent w)) (api_config m path p w) = Received r \<and> status r = 401"
  let ?w1 = "w\<lparr>sent := sent w @ [api_config m path p w]\<rparr>"
  from h have run: "api_request m path p w = (Inl (AxiosError (Some r)), on_unauthorized ?w1)"
    by (simp add: api_request_401)
  then show "fst (api_request m path p w) = Inl (AxiosError (Some r))"
    by simp
  from run on_unauthorized_parts[of ?w1]
  show "cookies (snd (api_request m path p w)) auth_token = None"
    and "cookie_ops (snd (api_request m path p w)) = cookie_ops w @ [RemoveCookie auth_token]"
    by simp_all
  from run on_unauthorized_parts[of ?w1]
  show "\<forall>loc. pathname w = Some loc \<and> \<not> includes_str loc ''/login'' \<and>
             \<not> includes_str loc ''/register'' \<longrightarrow>
         href (snd (api_request m path p w)) = href w @ [''/login'']"
    by simp
  from run on_unauthorized_parts[of ?w1]
  show "\<forall>loc. pathname w = Some loc \<and>
             (includes_str loc ''/login'' \<or> includes_str loc ''/register'') \<longrightarrow>
         href (snd (api_request m path p w)) = href w"
    by auto
next
  assume always: "\<forall>n q. \<exists>r. server w n q = Received r \<and> status r = 401"
  let ?w1 = "w\<lparr>sent := sent w @ [api_config m path p w]\<rparr>"
  from always obtain r
    where r: "server w (length (sent w)) (api_config m path p w) = Received r" "status r = 401"
    by blast
  let ?e = "AxiosError (Some r)"
  from r have "api_request m path p w = (Inl ?e, on_unauthorized ?w1)"
    by (rule api_request_401)
  then have call: "api_data m path p w = (Inl ?e, on_unauthorized ?w1)"
    by (simp add: api_data_def)
  from r have "not_transient ?e"
    by (simp add: not_transient_def status_of_def)
  with call have run: "withRetry_default (api_data m path p) w =
      ((Inl ?e, [Attempt (Inl ?e)]), on_unauthorized ?w1)"
    by (simp add: withRetry_default_def withRetry_stop)
  from r have "status_of ?e = Some 401"
    by (simp add: status_of_def)
  with run show "\<exists>e. events (withRetry_default (api_data m path p) w) = [Attempt (Inl e)] \<and>
      outcome (withRetry_default (api_data m path p) w) = Inl e \<and> status_of e = Some 401"
    by (simp add: events_def outcome_def)
  from run on_unauthorized_parts[of ?w1]
  show "length (sent (snd (withRetry_default (api_data m path p) w))) = length (sent w) + 1"
    and "cookie_ops (snd (withRetry_default (api_data m path p) w)) =
      cookie_ops w @ [RemoveCookie auth_token]"
    and "cookies (snd (withRetry_default (api_data m path p) w)) auth_token = None"
    by simp_all
qed

theorem unauthorized_clears_token_once_witness:
  "server (tab (always (Received (reply 401 None)))) 0
      (api_config GET ''/bookings'' [] (tab (always (Received (reply 401 None))))) =
     Received (reply 401 None) \<and>
   status (reply 401 None) = 401 \<and>
   pathname (tab (always (Received (reply 401 None)))) = Some ''/dashboard'' \<and>
   \<not> includes_str ''/dashboard'' ''/login'' \<and> \<not> includes_str ''/dashboard'' ''/register'' \<and>
   href (snd (api_request GET ''/bookings'' [] (tab (always (Received (reply 401 None)))))) = [''/login''] \<and>
   cookie_ops (snd (withRetry_default (api_data GET ''/bookings'' []) (tab (always (Received (reply 401 None)))))) =
     [RemoveCookie ''auth_token''] \<and>
   length (sent (snd (withRetry_default (api_data GET ''/bookings'' []) (tab (always (Received (reply 401 None))))))) = 1"
proof -
  let ?w = "tab (always (Received (reply 401 None)))"
  have srv: "server ?w n q = Received (reply 401 None)" for n q
    by (simp add: tab_def always_def)
  have st: "status (reply 401 None) = 401"
    by (simp add: reply_def)
  have loc: "pathname ?w = Some ''/dashboard''" and none: "sent ?w = []" "href ?w = []" "cookie_ops ?w = []"
    by (simp_all add: tab_def)
  have here: "\<not> includes_str ''/dashboard'' ''/login'' \<and> \<not> includes_str ''/dashboard'' ''/register''"
    by code_simp
  from srv st have every: "\<forall>n q. \<exists>r. server ?w n q = Received r \<and> status r = 401"
    by blast
  note claim = unauthorized_clears_token_once[of ?w GET "''/bookings''" "[]" "reply 401 None"]
  from claim srv st loc here none
  have nav: "href (snd (api_request GET ''/bookings'' [] ?w)) = [''/login'']"
    by simp
  from claim every none
  have once: "cookie_ops (snd (withRetry_default (api_data GET ''/bookings'' []) ?w)) =
        [RemoveCookie ''auth_token''] \<and>
      length (sent (snd (withRetry_default (api_data GET ''/bookings'' []) ?w))) = 1"
    by (simp add: auth_token_def)
  from srv[of 0] st loc here nav once none show ?thesis by simp
qed

section \<open>Properties of the pages\<close>

subsection \<open>The message shown when a booking fails\<close>

lemma api_request_refused:
  assumes "server w (length (sent w)) (api_config m path p w) = Received r"
    and "400 \<le> status r \<and> status r < 500 \<and> status r \<noteq> 401"
  shows "api_request m path p w =
    (Inl (AxiosError (Some r)), w\<lparr>sent := sent w @ [api_config m path p w]\<rparr>)"
  using assms
  by (simp add: api_request_def axios_send_def response_rejected_def Let_def)

text \<open>
  Claim C9, as it is written, fails on the form that uses \<open>bookingService\<close>: its request
  is answered with status 400 and the message \<open>Invalid date\<close>, and the text shown is the
  fixed one of that handler.
\<close>

theorem fixed_message_counterexample:
  "fst (bookingService_createBooking (booking_json (Some alice) haircut)
         (tab (always (Received (reply 400 (Some ''Invalid date'')))))) =
     Inl (AxiosError (Some (reply 400 (Some ''Invalid date'')))) \<and>
   toasts (snd (handleSubmit_unwrapped (Some 4070908800000) 1793577600000 (Some alice) haircut
         (False, tab (always (Received (reply 400 (Some ''Invalid date''))))))) =
     [Failure ''Failed to create booking. Please try again.''] \<and>
   Failure ''Failed to create booking. Please try again.'' \<noteq> Failure ''Invalid date''"
  by code_simp

text \<open>
  Claim C9, amended. On the form that uses \<open>bookingsService.createBooking\<close>, when the
  request is answered with a status from 400 to 499 other than 401, one request is sent
  (the helper does not retry) and one toast is added: the message of the response body,
  verbatim, when it has one that is not empty, and \<open>Failed to create booking\<close> otherwise.
  So the answer 400 with the message \<open>Invalid date\<close> shows \<open>Invalid date\<close>.
\<close>

theorem handleSubmit_surfaces_message:
  "server w (length (sent w)) (api_config POST ''/bookings'' (formData_json fd) w) = Received r \<and>
   400 \<le> status r \<and> status r < 500 \<and> status r \<noteq> 401 \<longrightarrow>
     toasts (snd (handleSubmit fd (busy, w))) =
       toasts w @ [Failure (or_default (body_message (data r)) ''Failed to create booking'')] \<and>
     length (sent (snd (handleSubmit fd (busy, w)))) = length (sent w) + 1 \<and>
     (\<forall>msg. body_message (data r) = Some msg \<and> msg \<noteq> [] \<longrightarrow>
        toasts (snd (handleSubmit fd (busy, w))) = toasts w @ [Failure msg]) \<and>
     (body_message (data r) = None \<longrightarrow>
        toasts (snd (handleSubmit fd (busy, w))) = toasts w @ [Failure ''Failed to create booking''])"
proof (intro impI)
  assume h: "server w (length (sent w)) (api_config POST ''/bookings'' (formData_json fd) w) = Received r \<and>
     400 \<le> status r \<and> status r < 500 \<and> status r \<noteq> 401"
  let ?p = "formData_json fd"
  let ?e = "AxiosError (Some r)"
  let ?w1 = "w\<lparr>sent := sent w @ [api_config POST ''/bookings'' ?p w]\<rparr>"
  from h have "api_request POST ''/bookings'' ?p w = (Inl ?e, ?w1)"
    by (intro api_request_refused) simp_all
  then have call: "api_data POST ''/bookings'' ?p w = (Inl ?e, ?w1)"
    by (simp add: api_data_def)
  from h have "not_transient ?e"
    by (auto simp add: not_transient_def status_of_def)
  with call have "withRetry_default (api_data POST ''/bookings'' ?p) w =
      ((Inl ?e, [Attempt (Inl ?e)]), ?w1)"
    by (simp add: withRetry_default_def withRetry_stop)
  then have "bookingsService_createBooking ?p w = (Inl ?e, ?w1)"
    by (simp add: bookingsService_createBooking_def wrapped_def)
  then have run: "handleSubmit fd (busy, w) =
      (False, toast_show (Failure (or_default (body_message (data r)) ''Failed to create booking'')) ?w1)"
    by (simp add: handleSubmit_def message_of_def)
  then show "toasts (snd (handleSubmit fd (busy, w))) =
       toasts w @ [Failure (or_default (body_message (data r)) ''Failed to create booking'')] \<and>
     length (sent (snd (handleSubmit fd (busy, w)))) = length (sent w) + 1 \<and>
     (\<forall>msg. body_message (data r) = Some msg \<and> msg \<noteq> [] \<longrightarrow>
        toasts (snd (handleSubmit fd (busy, w))) = toasts w @ [Failure msg]) \<and>
     (body_message (data r) = None \<longrightarrow>
        toasts (snd (handleSubmit fd (busy, w))) = toasts w @ [Failure ''Failed to create booking''])"
    by (simp add: toast_show_def or_default_def)
qed

theorem handleSubmit_surfaces_message_witness:
  "server (tab (always (Received (reply 400 (Some ''Invalid date''))))) 0
      (api_config POST ''/bookings'' (formData_json consultation)
         (tab (always (Received (reply 400 (Some ''Invalid date'')))))) =
     Received (reply 400 (Some ''Invalid date'')) \<and>
   400 \<le> status (reply 400 (Some ''Invalid date'')) \<and>
   status (reply 400 (Some ''Invalid date'')) < 500 \<and>
   status (reply 400 (Some ''Invalid date'')) \<noteq> 401 \<and>
   body_message (data (reply 400 (Some ''Invalid date''))) = Some ''Invalid date'' \<and>
   toasts (snd (handleSubmit consultation
      (False, tab (always (Received (reply 400 (Some ''Invalid date''))))))) =
     [Failure ''Invalid date''] \<and>
   length (sent (snd (handleSubmit consultation
      (False, tab (always (Received (reply 400 (Some ''Invalid date'')))))))) = 1"
proof -
  let ?r = "reply 400 (Some ''Invalid date'')"
  let ?w = "tab (always (Received ?r))"
  have srv: "server ?w n q = Received ?r" for n q
    by (simp add: tab_def always_def)
  have st: "400 \<le> status ?r \<and> status ?r < 500 \<and> status ?r \<noteq> 401"
    and msg: "body_message (data ?r) = Some ''Invalid date''"
    by (simp_all add: reply_def)
  have none: "sent ?w = []" "toasts ?w = []"
    by (simp_all add: tab_def)
  from srv st msg none handleSubmit_surfaces_message[of ?w consultation ?r False]
  have "toasts (snd (handleSubmit consultation (False, ?w))) = [Failure ''Invalid date''] \<and>
      length (sent (snd (handleSubmit consultation (False, ?w)))) = 1"
    by (simp add: or_default_def)
  with srv[of 0] st msg show ?thesis by simp
qed

subsection \<open>Deleting one's own account\<close>






lemma trim_examples:
  "trim ('' a1'' @ [CHR 0x09]) = ''a1'' \<and>
   trim ([CHR 0xC2, CHR 0xA0] @ ''a1'' @ [CHR 0xE2, CHR 0x80, CHR 0xA8]) = ''a1'' \<and>
   trim ([CHR 0xEF, CHR 0xBB, CHR 0xBF] @ ''a 1'') = ''a 1'' \<and>
   trim [CHR 0xE3, CHR 0x80, CHR 0x80] = [] \<and>
   clean_id (padded_row\<lparr>x_id := Some ([CHR 0xC2, CHR 0xA0] @ ''a1'')\<rparr>) = Some ''a1''"
  by code_simp




end
